theory Spec2Isabelle
  imports Main
begin

section \<open>Errors\<close>

text \<open>
  The error classes the two modules throw. \<open>Error\<close> is a plain JavaScript error with its
  message, \<open>TypeError\<close> is what destructuring a missing row raises, and \<open>StoreError\<close> stands
  for a request that the store adapter rejected.
\<close>

datatype error =
    BadRequestError string
  | ConflictError string
  | UnauthorizedError string
  | NotFoundError string
  | ForbiddenError
  | Error string
  | TypeError
  | StoreError

section \<open>Data model\<close>

text \<open>
  A JavaScript string is the list of its code units, so \<open>length\<close> is the string's
  \<open>length\<close>; ids are integers; a transaction is known by its number.
\<close>

type_synonym tx = nat

text \<open>The user object attached to a request: the fields listed in \<open>userFields\<close>.\<close>

record User =
  user_id :: int
  user_username :: string
  user_email :: string
  user_created_at :: string
  user_jwt_secret :: "string option"

text \<open>A row of the \<open>user\<close> resource.\<close>

record DbUser =
  db_id :: int
  db_actor :: int
  db_username :: string
  db_email :: string
  db_password :: "string option"
  db_created_at :: string
  db_jwt_secret :: "string option"

record ApiKeyRow =
  ak_id :: int
  ak_is_of__actor :: int
  ak_key :: string
  ak_name :: "string option"
  ak_description :: "string option"

record RoleRow =
  role_id :: int
  role_name :: string

record ApiKeyHasRole =
  ahr_api_key :: int
  ahr_role :: int

text \<open>The body of a registration: \<open>username\<close>, \<open>email\<close> and the optional \<open>password\<close>.\<close>

record UserData =
  ud_username :: string
  ud_email :: string
  ud_password :: "string option"

text \<open>The answer of the store to the insertion of a user: the body, with the row's id if
  the store reported one.\<close>

record PostedUser =
  posted_id :: "int option"
  posted_body :: UserData

text \<open>\<open>req.apiKey\<close>: only its \<open>key\<close> is read here.\<close>

record ReqApiKey =
  rk_key :: "string option"

text \<open>
  A request object. \<open>req_get\<close> is the header reader of an HTTP request; it is absent on
  the hook requests of the framework (\<open>'get' in req\<close> is false there).
\<close>

record Request =
  req_user :: "User option"
  req_creds :: "User option"
  req_apiKey :: "ReqApiKey option"
  req_get :: "(string \<Rightarrow> string option) option"

record ApiKeyOptions =
  opt_apiKey :: "string option"
  opt_name :: "string option"
  opt_description :: "string option"
  opt_tx :: "tx option"

record InternalApiKeyOptions =
  iopt_apiKey :: string
  iopt_name :: "string option"
  iopt_description :: "string option"
  iopt_tx :: tx

section \<open>The store adapter\<close>

text \<open>The requests the two modules send to the store, with the values they carry.\<close>

datatype store_op =
    GetActorable string int
  | PostCanAccess string int string
  | PostApiKey int string "string option" "string option"
  | GetRole string
  | PostApiKeyHasRole int int
  | GetUser string string "string list"
  | GetUserById int
  | GetUserByApiKey string
  | PostUser UserData "string option"
  | PatchUser int string

record tables =
  users :: "DbUser list"
  actorables :: "((string \<times> int) \<times> int) list"
  api_keys :: "ApiKeyRow list"
  roles :: "RoleRow list"
  api_key_roles :: "ApiKeyHasRole list"
  next_id :: int

text \<open>
  The world a call runs in: the tables as the call's transaction sees them, every request
  sent to the store (oldest first, with the transaction it was sent in), every call of the
  hash comparison primitive (password, hash), and the number of transactions opened.
\<close>

record world =
  db :: tables
  log :: "(tx option \<times> store_op) list"
  comparisons :: "(string \<times> string) list"
  tx_count :: nat

text \<open>
  The collaborators that are outside the two modules: the hash primitive, the store's
  decision to reject a request, whether its answer to a user insertion carries an id, the
  access-control answer (the ids of the rows under \<open>d\<close>, absent when there is no
  answer object), the random key generator, the two middlewares and the JWT test.
\<close>

record env =
  Hashed_compare :: "string \<Rightarrow> string \<Rightarrow> bool"
  Hashed_hash :: "string \<Rightarrow> string"
  rejects :: "tx option \<Rightarrow> store_op \<Rightarrow> bool"
  omits_id :: "UserData \<Rightarrow> bool"
  canAccess :: "Request \<Rightarrow> string \<Rightarrow> int \<Rightarrow> string \<Rightarrow> int option list option"
  randomstring_generate :: string
  apiKeyMiddleware :: "Request \<Rightarrow> error + Request"
  authorizationMiddleware :: "Request \<Rightarrow> error + Request"
  isJWT :: "string \<Rightarrow> bool"
  getIP :: "Request \<Rightarrow> string option"

text \<open>Sending a request: it is logged, and the store accepts or rejects it.\<close>

definition request_store :: "env \<Rightarrow> tx option \<Rightarrow> store_op \<Rightarrow> world \<Rightarrow> bool \<times> world" where
  "request_store e t op w = (\<not> rejects e t op, w\<lparr>log := log w @ [(t, op)]\<rparr>)"

text \<open>Some request sent between the worlds \<open>w\<close> and \<open>w'\<close> was rejected by the store.\<close>

definition rejected_since :: "env \<Rightarrow> world \<Rightarrow> world \<Rightarrow> bool" where
  "rejected_since e w w' = list_ex (\<lambda>(t, op). rejects e t op) (drop (length (log w)) (log w'))"

definition first_row :: "'a list \<Rightarrow> 'a option" where
  "first_row xs = (case xs of [] \<Rightarrow> None | x # _ \<Rightarrow> Some x)"

text \<open>The store's \<open>$tolower\<close>, on the ASCII letters.\<close>

definition tolower_char :: "char \<Rightarrow> char" where
  "tolower_char c =
     (case map_of (zip ''ABCDEFGHIJKLMNOPQRSTUVWXYZ'' ''abcdefghijklmnopqrstuvwxyz'') c of
        None \<Rightarrow> c
      | Some l \<Rightarrow> l)"

definition tolower :: "string \<Rightarrow> string" where
  "tolower s = map tolower_char s"

section \<open>Passwords\<close>

definition USERNAME_BLACKLIST :: "string list" where
  "USERNAME_BLACKLIST = [''root'']"

definition DUMMY_HASH :: string where
  "DUMMY_HASH = ''$2b$10$Wj6ud7bYmcAw4B1uuORsnuYODUKSkrH6dVwG1zoUhDeTCjwsxlp5.''"

text \<open>\<open>sbvrUtils.sbvrTypes.Hashed.compare\<close>: the primitive is called and the call recorded.\<close>

definition Hashed_compare_call :: "env \<Rightarrow> string \<Rightarrow> string \<Rightarrow> world \<Rightarrow> bool \<times> world" where
  "Hashed_compare_call e p h w =
     (Hashed_compare e p h, w\<lparr>comparisons := comparisons w @ [(p, h)]\<rparr>)"

definition runInvalidPasswordComparison :: "env \<Rightarrow> world \<Rightarrow> bool \<times> world" where
  "runInvalidPasswordComparison e w = Hashed_compare_call e [] DUMMY_HASH w"

definition comparePassword :: "env \<Rightarrow> string \<Rightarrow> string option \<Rightarrow> world \<Rightarrow> bool \<times> world" where
  "comparePassword e password hash w =
     (case hash of
        None \<Rightarrow> runInvalidPasswordComparison e w
      | Some h \<Rightarrow> Hashed_compare_call e password h w)"

text \<open>\<open>password\<close> is optional; \<open>!password\<close> holds for a missing and for an empty string.\<close>

definition validatePassword :: "string option \<Rightarrow> error + unit" where
  "validatePassword password =
     (case password of
        None \<Rightarrow> Inl (BadRequestError ''Password required.'')
      | Some p \<Rightarrow>
          if p = [] then Inl (BadRequestError ''Password required.'')
          else if length p < 8 then Inl (BadRequestError ''Password must be at least 8 characters.'')
          else Inr ())"

section \<open>The user directory\<close>

text \<open>The store's patch of a user's password: the value is hashed on the way in.\<close>

definition patch_password :: "env \<Rightarrow> int \<Rightarrow> string \<Rightarrow> tables \<Rightarrow> tables" where
  "patch_password e uid newPassword t =
     t\<lparr>users := map (\<lambda>u. if db_id u = uid then u\<lparr>db_password := Some (Hashed_hash e newPassword)\<rparr> else u)
                     (users t)\<rparr>"

definition setPassword :: "env \<Rightarrow> DbUser \<Rightarrow> string \<Rightarrow> tx option \<Rightarrow> world \<Rightarrow> (error + unit) \<times> world" where
  "setPassword e user newPassword t w =
     (let (ok, w1) = request_store e t (PatchUser (db_id user) newPassword) w
      in if \<not> ok then (Inl StoreError, w1)
         else (Inr (), w1\<lparr>db := patch_password e (db_id user) newPassword (db w1)\<rparr>))"

text \<open>How \<open>findUser\<close> classifies its argument: an email if it contains \<open>@\<close>.\<close>

definition loginField_of :: "string \<Rightarrow> string" where
  "loginField_of loginInfo = (if CHR ''@'' \<in> set loginInfo then ''email'' else ''username'')"

definition login_field_value :: "string \<Rightarrow> DbUser \<Rightarrow> string" where
  "login_field_value loginField u = (if loginField = ''email'' then db_email u else db_username u)"

text \<open>
  \<open>findUser\<close>: nothing is asked of the store for a falsy \<open>loginInfo\<close>. The filter compares
  the lowercased field with the lowercased \<open>loginInfo\<close>; the first row of the answer is
  returned. The answer's rows are returned whole; \<open>$select\<close> only narrows what the
  caller may read of them.
\<close>

definition findUser ::
  "env \<Rightarrow> string \<Rightarrow> tx option \<Rightarrow> string list \<Rightarrow> world \<Rightarrow> (error + DbUser option) \<times> world" where
  "findUser e loginInfo t select w =
     (if loginInfo = [] then (Inr None, w)
      else
        let loginField = loginField_of loginInfo;
            (ok, w1) = request_store e t (GetUser loginField loginInfo select) w
        in if \<not> ok then (Inl StoreError, w1)
           else (Inr (first_row (filter (\<lambda>u. tolower (login_field_value loginField u) = tolower loginInfo)
                                        (users (db w1)))), w1))"

definition defaultFindUser_select :: "string list" where
  "defaultFindUser_select = [''id'', ''actor'', ''username'', ''password'']"

definition updatePasswordIfNeeded ::
  "env \<Rightarrow> string \<Rightarrow> string \<Rightarrow> tx option \<Rightarrow> world \<Rightarrow> (error + bool) \<times> world" where
  "updatePasswordIfNeeded e usernameOrEmail newPassword t w =
     (case findUser e usernameOrEmail t defaultFindUser_select w of
        (Inl err, w1) \<Rightarrow> (Inl err, w1)
      | (Inr None, w1) \<Rightarrow> (Inl (NotFoundError ''User not found.''), w1)
      | (Inr (Some user), w1) \<Rightarrow>
          let (match, w2) = comparePassword e newPassword (db_password user) w1
          in if match then (Inr False, w2)
             else (case setPassword e user newPassword t w2 of
                     (Inr _, w3) \<Rightarrow> (Inr True, w3)
                   | (Inl _, w3) \<Rightarrow> (Inr False, w3)))"

definition checkUserPassword :: "env \<Rightarrow> string \<Rightarrow> int \<Rightarrow> world \<Rightarrow> (error + unit) \<times> world" where
  "checkUserPassword e password userId w =
     (let (ok, w1) = request_store e None (GetUserById userId) w
      in if \<not> ok then (Inl StoreError, w1)
         else (case first_row (filter (\<lambda>u. db_id u = userId) (users (db w1))) of
                 None \<Rightarrow> (Inl (BadRequestError ''User not found.''), w1)
               | Some user \<Rightarrow>
                   let (passwordIsOk, w2) = comparePassword e password (db_password user) w1
                   in if \<not> passwordIsOk then (Inl (BadRequestError ''Current password incorrect.''), w2)
                      else (Inr (), w2)))"

text \<open>The store's insertion of a user: the row gets the next id, the password is hashed.\<close>

definition insert_user :: "env \<Rightarrow> UserData \<Rightarrow> tables \<Rightarrow> PostedUser \<times> tables" where
  "insert_user e userData t =
     (let i = next_id t;
          row = \<lparr>db_id = i, db_actor = i, db_username = ud_username userData,
                 db_email = ud_email userData,
                 db_password = map_option (Hashed_hash e) (ud_password userData),
                 db_created_at = [], db_jwt_secret = None\<rparr>
      in (\<lparr>posted_id = (if omits_id e userData then None else Some i), posted_body = userData\<rparr>,
          t\<lparr>users := users t @ [row], next_id := i + 1\<rparr>))"

definition registerUser ::
  "env \<Rightarrow> UserData \<Rightarrow> tx \<Rightarrow> Request option \<Rightarrow> world \<Rightarrow> (error + PostedUser) \<times> world" where
  "registerUser e userData t req w =
     (if ud_username userData \<in> set USERNAME_BLACKLIST
      then (Inl (ConflictError ''This username is blacklisted''), w)
      else
        (case findUser e (ud_email userData) (Some t) [''id''] w of
           (Inl err, w1) \<Rightarrow> (Inl err, w1)
         | (Inr (Some _), w1) \<Rightarrow> (Inl (ConflictError ''This email is already taken''), w1)
         | (Inr None, w1) \<Rightarrow>
             (case findUser e (ud_username userData) (Some t) [''id''] w1 of
                (Inl err, w2) \<Rightarrow> (Inl err, w2)
              | (Inr (Some _), w2) \<Rightarrow> (Inl (ConflictError ''This username is already taken''), w2)
              | (Inr None, w2) \<Rightarrow>
                  let clientIP = (case req of None \<Rightarrow> None | Some r \<Rightarrow> getIP e r);
                      (ok, w3) = request_store e (Some t) (PostUser userData clientIP) w2
                  in if \<not> ok then (Inl StoreError, w3)
                     else
                       let (user, t4) = insert_user e userData (db w3);
                           w4 = w3\<lparr>db := t4\<rparr>
                       in if posted_id user = None
                          then (Inl (Error ''Error creating user in the platform''), w4)
                          else (Inr user, w4))))"

section \<open>The request identity resolver\<close>

text \<open>JavaScript's \<open>split\<close> on a one-character separator, and reading index \<open>i\<close>.\<close>

fun split_on :: "char \<Rightarrow> string \<Rightarrow> string list" where
  "split_on c [] = [[]]"
| "split_on c (x # xs) =
     (if x = c then [] # split_on c xs
      else (case split_on c xs of [] \<Rightarrow> [[x]] | p # ps \<Rightarrow> (x # p) # ps))"

definition nth_opt :: "'a list \<Rightarrow> nat \<Rightarrow> 'a option" where
  "nth_opt xs i = (if i < length xs then Some (xs ! i) else None)"

definition isRequest :: "Request \<Rightarrow> bool" where
  "isRequest req = (req_get req \<noteq> None)"

definition retrieveAPIKey :: "env \<Rightarrow> Request \<Rightarrow> error + Request" where
  "retrieveAPIKey e req =
     (case apiKeyMiddleware e req of
        Inl err \<Rightarrow> Inl err
      | Inr req1 \<Rightarrow>
          if \<not> isRequest req1 then Inr req1
          else
            let header = (case req_get req1 of
                            None \<Rightarrow> []
                          | Some get \<Rightarrow> (case get ''Authorization'' of None \<Rightarrow> [] | Some h \<Rightarrow> h));
                token = nth_opt (split_on CHR '' '' header) 1
            in (case token of
                  None \<Rightarrow> Inr req1
                | Some tok \<Rightarrow>
                    if tok \<noteq> [] \<and> \<not> isJWT e tok then authorizationMiddleware e req1
                    else Inr req1))"

definition userFields :: "string list" where
  "userFields = [''id'', ''username'', ''email'', ''created_at'', ''jwt_secret'']"

text \<open>\<open>_.pick(user, userFields)\<close> on a row of the \<open>user\<close> resource.\<close>

definition pick_userFields :: "DbUser \<Rightarrow> User" where
  "pick_userFields u =
     \<lparr>user_id = db_id u, user_username = db_username u, user_email = db_email u,
      user_created_at = db_created_at u, user_jwt_secret = db_jwt_secret u\<rparr>"

text \<open>The prepared query: the users whose actor owns an API key with the given key.\<close>

definition getUserQuery :: "tables \<Rightarrow> string \<Rightarrow> DbUser list" where
  "getUserQuery t key =
     take 1 (filter (\<lambda>u. \<exists>k \<in> set (api_keys t). ak_is_of__actor k = db_actor u \<and> ak_key k = key)
                    (users t))"

text \<open>
  \<open>getUser\<close> returns its result, the request as the call leaves it, and the world. When a
  middleware fails the request is returned as it was given.
\<close>

definition getUser ::
  "env \<Rightarrow> Request \<Rightarrow> bool \<Rightarrow> world \<Rightarrow> (error + User option) \<times> Request \<times> world" where
  "getUser e req required w =
     (case retrieveAPIKey e req of
        Inl err \<Rightarrow> (Inl err, req, w)
      | Inr req0 \<Rightarrow>
          let req1 = (if req_user req0 \<noteq> None \<and> req_creds req0 = None
                      then req0\<lparr>req_creds := req_user req0\<rparr> else req0)
          in if req_creds req1 \<noteq> None then
               (if required \<and> req_user req1 = None
                then (Inl (UnauthorizedError ''User has not been authorized''), req1, w)
                else (Inr (req_user req1), req1, w))
             else
               (case (case req_apiKey req1 of None \<Rightarrow> None | Some k \<Rightarrow> rk_key k) of
                  None \<Rightarrow>
                    if required then (Inl (UnauthorizedError ''Request has no JWT or API key''), req1, w)
                    else (Inr None, req1, w)
                | Some key \<Rightarrow>
                    if key = [] then
                      (if required then (Inl (UnauthorizedError ''Request has no JWT or API key''), req1, w)
                       else (Inr None, req1, w))
                    else
                      let (ok, w1) = request_store e None (GetUserByApiKey key) w
                      in if \<not> ok then (Inl StoreError, req1, w1)
                         else
                           (case first_row (getUserQuery (db w1) key) of
                              Some user \<Rightarrow>
                                let u = pick_userFields user;
                                    req2 = req1\<lparr>req_user := Some u, req_creds := Some u\<rparr>
                                in (Inr (req_user req2), req2, w1)
                            | None \<Rightarrow>
                                if required
                                then (Inl (UnauthorizedError ''User not found for API key''), req1, w1)
                                else (Inr (req_user req1), req1, w1))))"

section \<open>The API key issuer\<close>

text \<open>\<open>_.get(res, ['d', 0, 'id'])\<close>.\<close>

definition get_d_0_id :: "int option list option \<Rightarrow> int option" where
  "get_d_0_id res =
     (case res of None \<Rightarrow> None | Some d \<Rightarrow> (case d of [] \<Rightarrow> None | x # _ \<Rightarrow> x))"

definition insert_api_key ::
  "int \<Rightarrow> string \<Rightarrow> string option \<Rightarrow> string option \<Rightarrow> tables \<Rightarrow> tables" where
  "insert_api_key actorID apiKey name description t =
     t\<lparr>api_keys := api_keys t @
          [\<lparr>ak_id = next_id t, ak_is_of__actor = actorID, ak_key = apiKey, ak_name = name,
            ak_description = description\<rparr>],
       next_id := next_id t + 1\<rparr>"

definition insert_api_key_role :: "int \<Rightarrow> int \<Rightarrow> tables \<Rightarrow> tables" where
  "insert_api_key_role apiKeyId roleId t =
     t\<lparr>api_key_roles := api_key_roles t @ [\<lparr>ahr_api_key = apiKeyId, ahr_role = roleId\<rparr>]\<rparr>"

text \<open>
  \<open>$createApiKey\<close>. The insertion of the key and the role lookup are both sent before
  either answer is awaited (\<open>Promise.all\<close>), so the role lookup is sent, and the key row
  written, whatever the other answers.
\<close>

definition dollar_createApiKey ::
  "env \<Rightarrow> string \<Rightarrow> string \<Rightarrow> Request \<Rightarrow> int \<Rightarrow> InternalApiKeyOptions \<Rightarrow> world
     \<Rightarrow> (error + string) \<times> world" where
  "dollar_createApiKey e actorType roleName req actorTypeID opts w =
     (let t = Some (iopt_tx opts);
          (ok1, w1) = request_store e t (GetActorable actorType actorTypeID) w
      in if \<not> ok1 then (Inl StoreError, w1)
         else
           (case map_of (actorables (db w1)) (actorType, actorTypeID) of
              None \<Rightarrow> (Inl (Error (''No '' @ actorType @ '' found to associate with the api key'')), w1)
            | Some actorID \<Rightarrow>
                let action = ''create-'' @ roleName;
                    (ok2, w2) = request_store e t (PostCanAccess actorType actorTypeID action) w1
                in if \<not> ok2 then (Inl StoreError, w2)
                   else
                     let resId = get_d_0_id (canAccess e req actorType actorTypeID action)
                     in if resId \<noteq> Some actorTypeID then (Inl ForbiddenError, w2)
                        else
                          let (okP, w3) = request_store e t
                                 (PostApiKey actorID (iopt_apiKey opts) (iopt_name opts) (iopt_description opts)) w2;
                              apiKeyId = next_id (db w3);
                              w4 = (if okP
                                    then w3\<lparr>db := insert_api_key actorID (iopt_apiKey opts) (iopt_name opts)
                                                     (iopt_description opts) (db w3)\<rparr>
                                    else w3);
                              (okG, w5) = request_store e t (GetRole roleName) w4
                          in if \<not> okP \<or> \<not> okG then (Inl StoreError, w5)
                             else
                               (case filter (\<lambda>r. role_name r = roleName) (roles (db w5)) of
                                  [] \<Rightarrow> (Inl TypeError, w5)
                                | r # _ \<Rightarrow>
                                    let (okB, w6) = request_store e t (PostApiKeyHasRole apiKeyId (role_id r)) w5
                                    in if \<not> okB then (Inl StoreError, w6)
                                       else (Inr (iopt_apiKey opts),
                                             w6\<lparr>db := insert_api_key_role apiKeyId (role_id r) (db w6)\<rparr>))))"

text \<open>
  Modelled from the spec: \<open>sbvrUtils.db.transaction\<close>, the store adapter's wrapper
  "providing atomic scope", which is not part of the two modules. It hands a new
  transaction to the callback, commits what the callback wrote when it succeeds and rolls
  the tables back when it fails; the failure is passed on.
\<close>

definition transaction ::
  "(tx \<Rightarrow> world \<Rightarrow> (error + 'a) \<times> world) \<Rightarrow> world \<Rightarrow> (error + 'a) \<times> world" where
  "transaction f w =
     (let t = tx_count w;
          (r, w1) = f t (w\<lparr>tx_count := Suc t\<rparr>)
      in (case r of Inl err \<Rightarrow> (Inl err, w1\<lparr>db := db w\<rparr>) | Inr v \<Rightarrow> (Inr v, w1)))"

definition with_tx :: "ApiKeyOptions \<Rightarrow> string \<Rightarrow> tx \<Rightarrow> InternalApiKeyOptions" where
  "with_tx options apiKey t =
     \<lparr>iopt_apiKey = apiKey, iopt_name = opt_name options,
      iopt_description = opt_description options, iopt_tx = t\<rparr>"

definition createApiKey ::
  "env \<Rightarrow> string \<Rightarrow> string \<Rightarrow> Request \<Rightarrow> int \<Rightarrow> ApiKeyOptions \<Rightarrow> world \<Rightarrow> (error + string) \<times> world" where
  "createApiKey e actorType roleName req actorTypeID options w =
     (let apiKey = (case opt_apiKey options of None \<Rightarrow> randomstring_generate e | Some k \<Rightarrow> k)
      in (case opt_tx options of
            Some t \<Rightarrow> dollar_createApiKey e actorType roleName req actorTypeID (with_tx options apiKey t) w
          | None \<Rightarrow>
              transaction
                (\<lambda>t. dollar_createApiKey e actorType roleName req actorTypeID (with_tx options apiKey t)) w))"

text \<open>Every API key of the tables has at least one role binding.\<close>

definition every_key_has_role :: "tables \<Rightarrow> bool" where
  "every_key_has_role t =
     list_all (\<lambda>k. list_ex (\<lambda>b. ahr_api_key b = ak_id k) (api_key_roles t)) (api_keys t)"

section \<open>A small installation\<close>

text \<open>
  The concrete inputs of the worked examples: a store that accepts every request, a hash
  primitive that tags the password, middlewares that leave the request alone, and tables
  with two users, one application, one role and one bound API key.
\<close>

definition example_env :: env where
  "example_env =
     \<lparr>Hashed_compare = (\<lambda>p h. h = ''hash:'' @ p),
      Hashed_hash = (\<lambda>p. ''hash:'' @ p),
      rejects = (\<lambda>t op. False),
      omits_id = (\<lambda>d. False),
      canAccess = (\<lambda>req actorType i action. Some [Some i]),
      randomstring_generate = ''generated-key'',
      apiKeyMiddleware = Inr,
      authorizationMiddleware = Inr,
      isJWT = (\<lambda>token. False),
      getIP = (\<lambda>req. None)\<rparr>"

definition example_alice :: DbUser where
  "example_alice =
     \<lparr>db_id = 1, db_actor = 10, db_username = ''alice'', db_email = ''alice@example.com'',
      db_password = Some ''hash:correct horse'', db_created_at = ''2020-01-01'',
      db_jwt_secret = None\<rparr>"

definition example_dave :: DbUser where
  "example_dave =
     \<lparr>db_id = 2, db_actor = 11, db_username = ''dave'', db_email = ''bob'',
      db_password = None, db_created_at = ''2020-01-02'', db_jwt_secret = None\<rparr>"

definition example_tables :: tables where
  "example_tables =
     \<lparr>users = [example_alice, example_dave],
      actorables = [((''application'', 42), 7), ((''user'', 1), 10)],
      api_keys = [\<lparr>ak_id = 3, ak_is_of__actor = 10, ak_key = ''alice-key'', ak_name = None,
                   ak_description = None\<rparr>],
      roles = [\<lparr>role_id = 5, role_name = ''observer''\<rparr>],
      api_key_roles = [\<lparr>ahr_api_key = 3, ahr_role = 5\<rparr>],
      next_id = 100\<rparr>"

definition example_world :: world where
  "example_world = \<lparr>db = example_tables, log = [], comparisons = [], tx_count = 0\<rparr>"

definition example_request :: Request where
  "example_request = \<lparr>req_user = None, req_creds = None, req_apiKey = None, req_get = None\<rparr>"

definition example_user :: User where
  "example_user = \<lparr>user_id = 1, user_username = ''alice'', user_email = ''alice@example.com'',
     user_created_at = ''2020-01-01'', user_jwt_secret = None\<rparr>"

definition example_options :: ApiKeyOptions where
  "example_options = \<lparr>opt_apiKey = None, opt_name = None, opt_description = None, opt_tx = None\<rparr>"

section \<open>Auxiliary facts\<close>

lemmas example_defs = example_env_def example_world_def example_tables_def example_alice_def
  example_dave_def example_request_def

lemmas tolower_eval = tolower_def tolower_char_def

subsection \<open>Lookups and registration\<close>

lemma first_row_None: "first_row xs = None \<longleftrightarrow> xs = []"
  by (cases xs) (simp_all add: first_row_def)

lemma first_row_filter_None:
  "first_row (filter P xs) = None \<longleftrightarrow> (\<forall>x \<in> set xs. \<not> P x)"
  by (simp add: first_row_None filter_empty_conv)

lemma tolower_char_at: "tolower_char CHR ''@'' = CHR ''@''"
  by (simp add: tolower_char_def)

lemma tolower_keeps_at: "CHR ''@'' \<in> set u \<Longrightarrow> CHR ''@'' \<in> set (tolower u)"
  unfolding tolower_def using tolower_char_at by force

lemma tolower_root_no_at: "tolower u = ''root'' \<Longrightarrow> CHR ''@'' \<notin> set u \<and> u \<noteq> []"
  using tolower_keeps_at [of u] by (auto simp: tolower_def)

lemma findUser_nonempty:
  "loginInfo \<noteq> [] \<Longrightarrow>
   findUser e loginInfo t select w =
     (if rejects e t (GetUser (loginField_of loginInfo) loginInfo select) then Inl StoreError
      else Inr (first_row (filter (\<lambda>u. tolower (login_field_value (loginField_of loginInfo) u) = tolower loginInfo)
                                  (users (db w)))),
      w\<lparr>log := log w @ [(t, GetUser (loginField_of loginInfo) loginInfo select)]\<rparr>)"
  by (simp add: findUser_def request_store_def Let_def)

lemma findUser_empty: "findUser e [] t select w = (Inr None, w)"
  by (simp add: findUser_def)

lemma registerUser_blacklisted:
  "ud_username d \<in> set USERNAME_BLACKLIST \<Longrightarrow>
   registerUser e d t req w = (Inl (ConflictError ''This username is blacklisted''), w)"
  by (simp add: registerUser_def)

lemma registerUser_email_fails:
  "ud_username d \<notin> set USERNAME_BLACKLIST \<Longrightarrow>
   findUser e (ud_email d) (Some t) [''id''] w = (Inl err, w1) \<Longrightarrow>
   registerUser e d t req w = (Inl err, w1)"
  by (simp add: registerUser_def)

lemma registerUser_email_found:
  "ud_username d \<notin> set USERNAME_BLACKLIST \<Longrightarrow>
   findUser e (ud_email d) (Some t) [''id''] w = (Inr (Some u), w1) \<Longrightarrow>
   registerUser e d t req w = (Inl (ConflictError ''This email is already taken''), w1)"
  by (simp add: registerUser_def)

lemma registerUser_username_fails:
  "ud_username d \<notin> set USERNAME_BLACKLIST \<Longrightarrow>
   findUser e (ud_email d) (Some t) [''id''] w = (Inr None, w1) \<Longrightarrow>
   findUser e (ud_username d) (Some t) [''id''] w1 = (Inl err, w2) \<Longrightarrow>
   registerUser e d t req w = (Inl err, w2)"
  by (simp add: registerUser_def)

lemma registerUser_username_found:
  "ud_username d \<notin> set USERNAME_BLACKLIST \<Longrightarrow>
   findUser e (ud_email d) (Some t) [''id''] w = (Inr None, w1) \<Longrightarrow>
   findUser e (ud_username d) (Some t) [''id''] w1 = (Inr (Some u), w2) \<Longrightarrow>
   registerUser e d t req w = (Inl (ConflictError ''This username is already taken''), w2)"
  by (simp add: registerUser_def)

lemma registerUser_post:
  "ud_username d \<notin> set USERNAME_BLACKLIST \<Longrightarrow>
   findUser e (ud_email d) (Some t) [''id''] w = (Inr None, w1) \<Longrightarrow>
   findUser e (ud_username d) (Some t) [''id''] w1 = (Inr None, w2) \<Longrightarrow>
   registerUser e d t req w =
     (let op = PostUser d (case req of None \<Rightarrow> None | Some r \<Rightarrow> getIP e r);
          w3 = w2\<lparr>log := log w2 @ [(Some t, op)]\<rparr>
      in if rejects e (Some t) op then (Inl StoreError, w3)
         else if omits_id e d
              then (Inl (Error ''Error creating user in the platform''),
                    w3\<lparr>db := snd (insert_user e d (db w2))\<rparr>)
              else (Inr \<lparr>posted_id = Some (next_id (db w2)), posted_body = d\<rparr>,
                    w3\<lparr>db := snd (insert_user e d (db w2))\<rparr>))"
  by (simp add: registerUser_def request_store_def Let_def insert_user_def)

lemma loginField_of_email: "CHR ''@'' \<in> set s \<Longrightarrow> loginField_of s = ''email''"
  by (simp add: loginField_of_def)

lemma loginField_of_username: "CHR ''@'' \<notin> set s \<Longrightarrow> loginField_of s = ''username''"
  by (simp add: loginField_of_def)

lemma login_field_value_simps:
  "login_field_value ''email'' u = db_email u"
  "login_field_value ''username'' u = db_username u"
  by (simp_all add: login_field_value_def)

lemma findUser_email:
  assumes "CHR ''@'' \<in> set s"
  shows "findUser e s t select w =
     (if rejects e t (GetUser ''email'' s select) then Inl StoreError
      else Inr (first_row (filter (\<lambda>u. tolower (db_email u) = tolower s) (users (db w)))),
      w\<lparr>log := log w @ [(t, GetUser ''email'' s select)]\<rparr>)"
proof -
  from assms have "s \<noteq> []" by auto
  then show ?thesis
    using assms by (simp add: findUser_nonempty loginField_of_email login_field_value_simps)
qed

lemma findUser_username:
  assumes "s \<noteq> []" "CHR ''@'' \<notin> set s"
  shows "findUser e s t select w =
     (if rejects e t (GetUser ''username'' s select) then Inl StoreError
      else Inr (first_row (filter (\<lambda>u. tolower (db_username u) = tolower s) (users (db w)))),
      w\<lparr>log := log w @ [(t, GetUser ''username'' s select)]\<rparr>)"
  using assms by (simp add: findUser_nonempty loginField_of_username login_field_value_simps)

lemma first_row_filter_Some:
  "\<exists>x \<in> set xs. P x \<Longrightarrow> \<exists>y. first_row (filter P xs) = Some y"
  using first_row_filter_None [of P xs] by (cases "first_row (filter P xs)") auto

lemma registerUser_valid_shape:
  assumes bl: "ud_username d \<notin> set USERNAME_BLACKLIST"
    and em: "CHR ''@'' \<in> set (ud_email d)"
    and un: "ud_username d \<noteq> []" "CHR ''@'' \<notin> set (ud_username d)"
  shows "fst (registerUser e d t req w) =
     (if rejects e (Some t) (GetUser ''email'' (ud_email d) [''id'']) then Inl StoreError
      else if \<exists>u \<in> set (users (db w)). tolower (db_email u) = tolower (ud_email d)
        then Inl (ConflictError ''This email is already taken'')
      else if rejects e (Some t) (GetUser ''username'' (ud_username d) [''id'']) then Inl StoreError
      else if \<exists>u \<in> set (users (db w)). tolower (db_username u) = tolower (ud_username d)
        then Inl (ConflictError ''This username is already taken'')
      else if rejects e (Some t) (PostUser d (case req of None \<Rightarrow> None | Some r \<Rightarrow> getIP e r))
        then Inl StoreError
      else if omits_id e d then Inl (Error ''Error creating user in the platform'')
      else Inr \<lparr>posted_id = Some (next_id (db w)), posted_body = d\<rparr>)"
proof -
  let ?q1 = "GetUser ''email'' (ud_email d) [''id'']"
  let ?q2 = "GetUser ''username'' (ud_username d) [''id'']"
  let ?w1 = "w\<lparr>log := log w @ [(Some t, ?q1)]\<rparr>"
  let ?w2 = "?w1\<lparr>log := log ?w1 @ [(Some t, ?q2)]\<rparr>"
  let ?E = "\<exists>u \<in> set (users (db w)). tolower (db_email u) = tolower (ud_email d)"
  let ?U = "\<exists>u \<in> set (users (db w)). tolower (db_username u) = tolower (ud_username d)"
  show ?thesis
  proof (cases "rejects e (Some t) ?q1")
    case True
    then have "findUser e (ud_email d) (Some t) [''id''] w = (Inl StoreError, ?w1)"
      by (simp add: findUser_email [OF em])
    from registerUser_email_fails [OF bl this] True show ?thesis by simp
  next
    case r1: False
    show ?thesis
    proof (cases ?E)
      case True
      then have "\<exists>y. first_row (filter (\<lambda>u. tolower (db_email u) = tolower (ud_email d)) (users (db w))) = Some y"
        by (rule first_row_filter_Some)
      then obtain y where "first_row (filter (\<lambda>u. tolower (db_email u) = tolower (ud_email d)) (users (db w))) = Some y" ..
      with r1 have "findUser e (ud_email d) (Some t) [''id''] w = (Inr (Some y), ?w1)"
        by (simp add: findUser_email [OF em])
      from registerUser_email_found [OF bl this] r1 True show ?thesis by simp
    next
      case e1: False
      then have "first_row (filter (\<lambda>u. tolower (db_email u) = tolower (ud_email d)) (users (db w))) = None"
        by (simp add: first_row_filter_None first_row_def)
      with r1 have f1: "findUser e (ud_email d) (Some t) [''id''] w = (Inr None, ?w1)"
        by (simp add: findUser_email [OF em])
      show ?thesis
      proof (cases "rejects e (Some t) ?q2")
        case True
        then have "findUser e (ud_username d) (Some t) [''id''] ?w1 = (Inl StoreError, ?w2)"
          by (simp add: findUser_username [OF un])
        from registerUser_username_fails [OF bl f1 this] r1 e1 True show ?thesis by simp
      next
        case r2: False
        show ?thesis
        proof (cases ?U)
          case True
          then have "\<exists>y. first_row (filter (\<lambda>u. tolower (db_username u) = tolower (ud_username d)) (users (db w))) = Some y"
            by (rule first_row_filter_Some)
          then obtain y where "first_row (filter (\<lambda>u. tolower (db_username u) = tolower (ud_username d)) (users (db w))) = Some y" ..
          with r2 have "findUser e (ud_username d) (Some t) [''id''] ?w1 = (Inr (Some y), ?w2)"
            by (simp add: findUser_username [OF un])
          from registerUser_username_found [OF bl f1 this] r1 e1 r2 True show ?thesis by simp
        next
          case u1: False
          then have "first_row (filter (\<lambda>u. tolower (db_username u) = tolower (ud_username d)) (users (db ?w1))) = None"
            by (simp add: first_row_filter_None first_row_def)
          with r2 have f2: "findUser e (ud_username d) (Some t) [''id''] ?w1 = (Inr None, ?w2)"
            by (simp add: findUser_username [OF un])
          from registerUser_post [OF bl f1 f2] r1 e1 r2 u1 show ?thesis
            by (simp add: Let_def)
        qed
      qed
    qed
  qed
qed

lemma findUser_snd:
  "snd (findUser e s t select w) =
     (if s = [] then w else w\<lparr>log := log w @ [(t, GetUser (loginField_of s) s select)]\<rparr>)"
  by (simp add: findUser_empty findUser_nonempty)

lemma registerUser_post_log:
  assumes "ud_username d \<notin> set USERNAME_BLACKLIST"
    and "findUser e (ud_email d) (Some t) [''id''] w = (Inr None, w1)"
    and "findUser e (ud_username d) (Some t) [''id''] w1 = (Inr None, w2)"
  shows "log (snd (registerUser e d t req w)) =
           log w2 @ [(Some t, PostUser d (case req of None \<Rightarrow> None | Some r \<Rightarrow> getIP e r))]"
  by (simp add: registerUser_post [OF assms] Let_def)

lemma registerUser_log_after_email:
  assumes bl: "ud_username d \<notin> set USERNAME_BLACKLIST"
  shows "\<exists>ops. log (snd (registerUser e d t req w)) =
           log (snd (findUser e (ud_email d) (Some t) [''id''] w)) @ ops \<and>
           (fst (findUser e (ud_email d) (Some t) [''id''] w) = Inr None \<and> ud_username d \<noteq> [] \<longrightarrow>
              (\<exists>ops'. ops = (Some t, GetUser (loginField_of (ud_username d)) (ud_username d) [''id'']) # ops'))"
proof -
  obtain r1 w1 where f1: "findUser e (ud_email d) (Some t) [''id''] w = (r1, w1)"
    by (cases "findUser e (ud_email d) (Some t) [''id''] w")
  show ?thesis
  proof (cases r1)
    case (Inl err)
    with registerUser_email_fails [OF bl, of e t w err w1 req] f1 show ?thesis by simp
  next
    case (Inr found)
    show ?thesis
    proof (cases found)
      case (Some u)
      with registerUser_email_found [OF bl, of e t w u w1 req] f1 Inr show ?thesis by simp
    next
      case None
      with f1 Inr have f1': "findUser e (ud_email d) (Some t) [''id''] w = (Inr None, w1)" by simp
      obtain r2 w2 where f2: "findUser e (ud_username d) (Some t) [''id''] w1 = (r2, w2)"
        by (cases "findUser e (ud_username d) (Some t) [''id''] w1")
      have w2: "w2 = (if ud_username d = [] then w1
                      else w1\<lparr>log := log w1 @ [(Some t, GetUser (loginField_of (ud_username d)) (ud_username d) [''id''])]\<rparr>)"
        using findUser_snd [of e "ud_username d" "Some t" "[''id'']" w1] f2 by simp
      show ?thesis
      proof (cases r2)
        case (Inl err)
        with registerUser_username_fails [OF bl f1', of err w2 req] f2 f1' w2 show ?thesis by simp
      next
        case Inr2: (Inr found2)
        show ?thesis
        proof (cases found2)
          case (Some u)
          with registerUser_username_found [OF bl f1', of u w2 req] f2 f1' w2 Inr2 show ?thesis by simp
        next
          case None
          with f2 Inr2 have f2': "findUser e (ud_username d) (Some t) [''id''] w1 = (Inr None, w2)" by simp
          from registerUser_post_log [OF bl f1' f2', of req] f1' w2 show ?thesis by simp
        qed
      qed
    qed
  qed
qed

lemma findUser_Inl: "findUser e s t select w = (Inl err, w1) \<Longrightarrow> err = StoreError"
  by (cases "s = []") (auto simp: findUser_empty findUser_nonempty split: if_splits)

lemma registerUser_not_blacklist_conflict:
  assumes bl: "ud_username d \<notin> set USERNAME_BLACKLIST"
  shows "fst (registerUser e d t req w) \<noteq> Inl (ConflictError ''This username is blacklisted'')"
  using bl
  by (auto simp: registerUser_def Let_def request_store_def insert_user_def
      split: prod.splits sum.splits option.splits if_splits dest: findUser_Inl)

subsection \<open>Password comparison and update\<close>

lemma comparePassword_snd:
  "snd (comparePassword e p h w) =
     w\<lparr>comparisons := comparisons w @ [(case h of None \<Rightarrow> ([], DUMMY_HASH) | Some x \<Rightarrow> (p, x))]\<rparr>"
  by (cases h)
     (simp_all add: comparePassword_def runInvalidPasswordComparison_def Hashed_compare_call_def)

lemma setPassword_eq:
  "setPassword e user p t w =
     (if rejects e t (PatchUser (db_id user) p)
      then (Inl StoreError, w\<lparr>log := log w @ [(t, PatchUser (db_id user) p)]\<rparr>)
      else (Inr (), w\<lparr>log := log w @ [(t, PatchUser (db_id user) p)],
                      db := patch_password e (db_id user) p (db w)\<rparr>))"
  by (simp add: setPassword_def request_store_def)

lemma updatePasswordIfNeeded_lookup_fails:
  "findUser e u t defaultFindUser_select w = (Inl err, w1) \<Longrightarrow>
   updatePasswordIfNeeded e u p t w = (Inl err, w1)"
  by (simp add: updatePasswordIfNeeded_def)

lemma updatePasswordIfNeeded_not_found:
  "findUser e u t defaultFindUser_select w = (Inr None, w1) \<Longrightarrow>
   updatePasswordIfNeeded e u p t w = (Inl (NotFoundError ''User not found.''), w1)"
  by (simp add: updatePasswordIfNeeded_def)

lemma updatePasswordIfNeeded_found:
  "findUser e u t defaultFindUser_select w = (Inr (Some user), w1) \<Longrightarrow>
   updatePasswordIfNeeded e u p t w =
     (let w2 = snd (comparePassword e p (db_password user) w1);
          op = PatchUser (db_id user) p
      in if fst (comparePassword e p (db_password user) w1) then (Inr False, w2)
         else if rejects e t op then (Inr False, w2\<lparr>log := log w2 @ [(t, op)]\<rparr>)
         else (Inr True, w2\<lparr>log := log w2 @ [(t, op)],
                            db := patch_password e (db_id user) p (db w2)\<rparr>))"
  by (simp add: updatePasswordIfNeeded_def setPassword_eq Let_def split: prod.splits)

subsection \<open>The paths of the identity resolver\<close>

lemma getUser_middleware_fails:
  "retrieveAPIKey e req = Inl err \<Longrightarrow> getUser e req required w = (Inl err, req, w)"
  by (simp add: getUser_def)

lemma getUser_creds_attached:
  "retrieveAPIKey e req = Inr req0 \<Longrightarrow> req_creds req0 \<noteq> None \<Longrightarrow>
   getUser e req required w =
     (if required \<and> req_user req0 = None
      then Inl (UnauthorizedError ''User has not been authorized'')
      else Inr (req_user req0), req0, w)"
  by (auto simp: getUser_def Let_def)

lemma getUser_user_without_creds:
  "retrieveAPIKey e req = Inr req0 \<Longrightarrow> req_creds req0 = None \<Longrightarrow> req_user req0 = Some u \<Longrightarrow>
   getUser e req required w = (Inr (Some u), req0\<lparr>req_creds := Some u\<rparr>, w)"
  by (simp add: getUser_def Let_def)

lemma getUser_no_api_key:
  "retrieveAPIKey e req = Inr req0 \<Longrightarrow> req_creds req0 = None \<Longrightarrow> req_user req0 = None \<Longrightarrow>
   req_apiKey req0 = None \<or> (\<exists>k. req_apiKey req0 = Some k \<and> (rk_key k = None \<or> rk_key k = Some [])) \<Longrightarrow>
   getUser e req required w =
     (if required then Inl (UnauthorizedError ''Request has no JWT or API key'') else Inr None, req0, w)"
  by (auto simp: getUser_def Let_def)

lemma getUser_lookup:
  "retrieveAPIKey e req = Inr req0 \<Longrightarrow> req_creds req0 = None \<Longrightarrow> req_user req0 = None \<Longrightarrow>
   req_apiKey req0 = Some k \<Longrightarrow> rk_key k = Some key \<Longrightarrow> key \<noteq> [] \<Longrightarrow>
   getUser e req required w =
     (let w1 = w\<lparr>log := log w @ [(None, GetUserByApiKey key)]\<rparr>
      in if rejects e None (GetUserByApiKey key) then (Inl StoreError, req0, w1)
         else (case getUserQuery (db w) key of
                 [] \<Rightarrow> (if required then Inl (UnauthorizedError ''User not found for API key'')
                        else Inr None, req0, w1)
               | user # rest \<Rightarrow>
                   (Inr (Some (pick_userFields user)),
                    req0\<lparr>req_user := Some (pick_userFields user),
                         req_creds := Some (pick_userFields user)\<rparr>, w1)))"
  by (simp add: getUser_def request_store_def Let_def first_row_def split: list.splits)

lemma getUserQuery_empty:
  "getUserQuery t key = [] \<longleftrightarrow>
     (\<forall>u \<in> set (users t). \<forall>k \<in> set (api_keys t). \<not> (ak_is_of__actor k = db_actor u \<and> ak_key k = key))"
  by (auto simp: getUserQuery_def filter_empty_conv)

lemma retrieveAPIKey_example:
  "req_get req = None \<Longrightarrow> retrieveAPIKey example_env req = Inr req"
  by (simp add: retrieveAPIKey_def isRequest_def example_env_def)

subsection \<open>The steps of the key issuer\<close>

text \<open>One fact for each way \<open>$createApiKey\<close> can end.\<close>

lemma dollar_createApiKey_actor_rejected:
  "rejects e (Some (iopt_tx opts)) (GetActorable actorType actorTypeID) \<Longrightarrow>
   dollar_createApiKey e actorType roleName req actorTypeID opts w =
     (Inl StoreError, w\<lparr>log := log w @ [(Some (iopt_tx opts), GetActorable actorType actorTypeID)]\<rparr>)"
  by (simp add: dollar_createApiKey_def request_store_def)

lemma dollar_createApiKey_no_actor:
  "\<not> rejects e (Some (iopt_tx opts)) (GetActorable actorType actorTypeID) \<Longrightarrow>
   map_of (actorables (db w)) (actorType, actorTypeID) = None \<Longrightarrow>
   dollar_createApiKey e actorType roleName req actorTypeID opts w =
     (Inl (Error (''No '' @ actorType @ '' found to associate with the api key'')),
      w\<lparr>log := log w @ [(Some (iopt_tx opts), GetActorable actorType actorTypeID)]\<rparr>)"
  by (simp add: dollar_createApiKey_def request_store_def)

lemma dollar_createApiKey_access_rejected:
  "\<not> rejects e (Some (iopt_tx opts)) (GetActorable actorType actorTypeID) \<Longrightarrow>
   map_of (actorables (db w)) (actorType, actorTypeID) = Some actorID \<Longrightarrow>
   rejects e (Some (iopt_tx opts)) (PostCanAccess actorType actorTypeID (''create-'' @ roleName)) \<Longrightarrow>
   dollar_createApiKey e actorType roleName req actorTypeID opts w =
     (Inl StoreError,
      w\<lparr>log := log w @ [(Some (iopt_tx opts), GetActorable actorType actorTypeID),
                        (Some (iopt_tx opts), PostCanAccess actorType actorTypeID (''create-'' @ roleName))]\<rparr>)"
  by (simp add: dollar_createApiKey_def request_store_def Let_def)

lemma dollar_createApiKey_forbidden:
  "\<not> rejects e (Some (iopt_tx opts)) (GetActorable actorType actorTypeID) \<Longrightarrow>
   map_of (actorables (db w)) (actorType, actorTypeID) = Some actorID \<Longrightarrow>
   \<not> rejects e (Some (iopt_tx opts)) (PostCanAccess actorType actorTypeID (''create-'' @ roleName)) \<Longrightarrow>
   get_d_0_id (canAccess e req actorType actorTypeID (''create-'' @ roleName)) \<noteq> Some actorTypeID \<Longrightarrow>
   dollar_createApiKey e actorType roleName req actorTypeID opts w =
     (Inl ForbiddenError,
      w\<lparr>log := log w @ [(Some (iopt_tx opts), GetActorable actorType actorTypeID),
                        (Some (iopt_tx opts), PostCanAccess actorType actorTypeID (''create-'' @ roleName))]\<rparr>)"
  by (simp add: dollar_createApiKey_def request_store_def Let_def)

lemma dollar_createApiKey_allowed:
  "\<not> rejects e (Some (iopt_tx opts)) (GetActorable actorType actorTypeID) \<Longrightarrow>
   map_of (actorables (db w)) (actorType, actorTypeID) = Some actorID \<Longrightarrow>
   \<not> rejects e (Some (iopt_tx opts)) (PostCanAccess actorType actorTypeID (''create-'' @ roleName)) \<Longrightarrow>
   get_d_0_id (canAccess e req actorType actorTypeID (''create-'' @ roleName)) = Some actorTypeID \<Longrightarrow>
   dollar_createApiKey e actorType roleName req actorTypeID opts w =
     (let t = Some (iopt_tx opts);
          post = PostApiKey actorID (iopt_apiKey opts) (iopt_name opts) (iopt_description opts);
          sent = log w @ [(t, GetActorable actorType actorTypeID),
                          (t, PostCanAccess actorType actorTypeID (''create-'' @ roleName)),
                          (t, post), (t, GetRole roleName)];
          keyed = insert_api_key actorID (iopt_apiKey opts) (iopt_name opts) (iopt_description opts) (db w)
      in if rejects e t post then (Inl StoreError, w\<lparr>log := sent\<rparr>)
         else if rejects e t (GetRole roleName) then (Inl StoreError, w\<lparr>log := sent, db := keyed\<rparr>)
         else (case filter (\<lambda>r. role_name r = roleName) (roles (db w)) of
                 [] \<Rightarrow> (Inl TypeError, w\<lparr>log := sent, db := keyed\<rparr>)
               | r # rest \<Rightarrow>
                   let bind = (t, PostApiKeyHasRole (next_id (db w)) (role_id r))
                   in if rejects e t (snd bind) then (Inl StoreError, w\<lparr>log := sent @ [bind], db := keyed\<rparr>)
                      else (Inr (iopt_apiKey opts),
                            w\<lparr>log := sent @ [bind],
                              db := insert_api_key_role (next_id (db w)) (role_id r) keyed\<rparr>)))"
  by (simp add: dollar_createApiKey_def request_store_def Let_def insert_api_key_def
      split: list.splits)

lemma dollar_createApiKey_outcomes:
  fixes e actorType roleName req actorTypeID opts w
  defines "r \<equiv> dollar_createApiKey e actorType roleName req actorTypeID opts w"
  shows "(\<exists>err ops. r = (Inl err, w\<lparr>log := log w @ ops\<rparr>)) \<or>
         (\<exists>err ops actorID. r = (Inl err,
             w\<lparr>log := log w @ ops,
               db := insert_api_key actorID (iopt_apiKey opts) (iopt_name opts) (iopt_description opts) (db w)\<rparr>)) \<or>
         (\<exists>ops actorID ro rest. r = (Inr (iopt_apiKey opts),
             w\<lparr>log := log w @ ops,
               db := insert_api_key_role (next_id (db w)) (role_id ro)
                       (insert_api_key actorID (iopt_apiKey opts) (iopt_name opts) (iopt_description opts) (db w))\<rparr>) \<and>
             map_of (actorables (db w)) (actorType, actorTypeID) = Some actorID \<and>
             filter (\<lambda>r. role_name r = roleName) (roles (db w)) = ro # rest \<and>
             \<not> rejects e (Some (iopt_tx opts)) (GetRole roleName) \<and>
             \<not> rejects e (Some (iopt_tx opts)) (PostApiKeyHasRole (next_id (db w)) (role_id ro)))"
proof -
  let ?t = "Some (iopt_tx opts)"
  consider (a) "rejects e ?t (GetActorable actorType actorTypeID)"
    | (b) "\<not> rejects e ?t (GetActorable actorType actorTypeID)"
          "map_of (actorables (db w)) (actorType, actorTypeID) = None"
    | (c) actorID where "\<not> rejects e ?t (GetActorable actorType actorTypeID)"
          "map_of (actorables (db w)) (actorType, actorTypeID) = Some actorID"
          "rejects e ?t (PostCanAccess actorType actorTypeID (''create-'' @ roleName))"
    | (d) actorID where "\<not> rejects e ?t (GetActorable actorType actorTypeID)"
          "map_of (actorables (db w)) (actorType, actorTypeID) = Some actorID"
          "\<not> rejects e ?t (PostCanAccess actorType actorTypeID (''create-'' @ roleName))"
          "get_d_0_id (canAccess e req actorType actorTypeID (''create-'' @ roleName)) \<noteq> Some actorTypeID"
    | (f) actorID where "\<not> rejects e ?t (GetActorable actorType actorTypeID)"
          "map_of (actorables (db w)) (actorType, actorTypeID) = Some actorID"
          "\<not> rejects e ?t (PostCanAccess actorType actorTypeID (''create-'' @ roleName))"
          "get_d_0_id (canAccess e req actorType actorTypeID (''create-'' @ roleName)) = Some actorTypeID"
    by (cases "map_of (actorables (db w)) (actorType, actorTypeID)") auto
  then show ?thesis
  proof cases
    case a
    from dollar_createApiKey_actor_rejected [OF a, of roleName req w] show ?thesis
      unfolding r_def by blast
  next
    case b
    from dollar_createApiKey_no_actor [OF b, of roleName req] show ?thesis
      unfolding r_def by blast
  next
    case c
    from dollar_createApiKey_access_rejected [OF c, of req] show ?thesis
      unfolding r_def by blast
  next
    case d
    from dollar_createApiKey_forbidden [OF d] show ?thesis
      unfolding r_def by blast
  next
    case f
    note eq = dollar_createApiKey_allowed [OF f]
    let ?post = "PostApiKey actorID (iopt_apiKey opts) (iopt_name opts) (iopt_description opts)"
    show ?thesis
    proof (cases "rejects e ?t ?post")
      case True
      with eq show ?thesis unfolding r_def by (simp add: Let_def) blast
    next
      case p: False
      show ?thesis
      proof (cases "rejects e ?t (GetRole roleName)")
        case True
        with eq p show ?thesis unfolding r_def by (simp add: Let_def) blast
      next
        case g: False
        show ?thesis
        proof (cases "filter (\<lambda>r. role_name r = roleName) (roles (db w))")
          case Nil
          with eq p g show ?thesis unfolding r_def by (simp add: Let_def) blast
        next
          case (Cons ro rest)
          show ?thesis
          proof (cases "rejects e ?t (PostApiKeyHasRole (next_id (db w)) (role_id ro))")
            case True
            with eq p g Cons show ?thesis unfolding r_def by (simp add: Let_def) blast
          next
            case False
            with eq p g Cons f show ?thesis unfolding r_def by (simp add: Let_def) blast
          qed
        qed
      qed
    qed
  qed
qed

lemma createApiKey_caller_tx:
  "opt_tx options = Some t \<Longrightarrow>
   createApiKey e actorType roleName req actorTypeID options w =
     dollar_createApiKey e actorType roleName req actorTypeID
       (with_tx options (case opt_apiKey options of None \<Rightarrow> randomstring_generate e | Some k \<Rightarrow> k) t) w"
  by (simp add: createApiKey_def)

lemma createApiKey_own_tx:
  "opt_tx options = None \<Longrightarrow>
   createApiKey e actorType roleName req actorTypeID options w =
     (case dollar_createApiKey e actorType roleName req actorTypeID
             (with_tx options (case opt_apiKey options of None \<Rightarrow> randomstring_generate e | Some k \<Rightarrow> k)
                (tx_count w))
             (w\<lparr>tx_count := Suc (tx_count w)\<rparr>) of
        (Inl err, w1) \<Rightarrow> (Inl err, w1\<lparr>db := db w\<rparr>)
      | (Inr v, w1) \<Rightarrow> (Inr v, w1))"
  by (simp add: createApiKey_def transaction_def Let_def split: prod.splits sum.splits)

lemma with_tx_simps:
  "iopt_apiKey (with_tx options k t) = k"
  "iopt_name (with_tx options k t) = opt_name options"
  "iopt_description (with_tx options k t) = opt_description options"
  "iopt_tx (with_tx options k t) = t"
  by (simp_all add: with_tx_def)

lemma every_key_has_role_insert:
  "every_key_has_role t \<Longrightarrow>
   every_key_has_role (insert_api_key_role (next_id t) roleId (insert_api_key actorID k n d t))"
  by (auto simp: every_key_has_role_def insert_api_key_role_def insert_api_key_def
      list_all_iff list_ex_iff)

text \<open>What a call of \<open>createApiKey\<close> can leave behind, whoever opened the transaction.\<close>

lemma createApiKey_outcomes:
  fixes e actorType roleName req actorTypeID options w
  defines "r \<equiv> createApiKey e actorType roleName req actorTypeID options w"
    and "key \<equiv> (case opt_apiKey options of None \<Rightarrow> randomstring_generate e | Some k \<Rightarrow> k)"
    and "t \<equiv> (case opt_tx options of Some x \<Rightarrow> x | None \<Rightarrow> tx_count w)"
  shows "(\<exists>err. fst r = Inl err \<and> db (snd r) = db w) \<or>
         (\<exists>err actorID. fst r = Inl err \<and> opt_tx options \<noteq> None \<and>
             db (snd r) = insert_api_key actorID key (opt_name options) (opt_description options) (db w)) \<or>
         (\<exists>actorID ro rest. fst r = Inr key \<and>
             db (snd r) = insert_api_key_role (next_id (db w)) (role_id ro)
                       (insert_api_key actorID key (opt_name options) (opt_description options) (db w)) \<and>
             map_of (actorables (db w)) (actorType, actorTypeID) = Some actorID \<and>
             filter (\<lambda>r. role_name r = roleName) (roles (db w)) = ro # rest \<and>
             \<not> rejects e (Some t) (GetRole roleName) \<and>
             \<not> rejects e (Some t) (PostApiKeyHasRole (next_id (db w)) (role_id ro)))"
proof (cases "opt_tx options")
  case (Some x)
  from dollar_createApiKey_outcomes [of e actorType roleName req actorTypeID "with_tx options key x" w]
  show ?thesis
    unfolding r_def t_def key_def createApiKey_caller_tx [OF Some] using Some
    by (auto simp: with_tx_simps)
next
  case None
  from dollar_createApiKey_outcomes [of e actorType roleName req actorTypeID
      "with_tx options key (tx_count w)" "w\<lparr>tx_count := Suc (tx_count w)\<rparr>"]
  show ?thesis
    unfolding r_def t_def key_def createApiKey_own_tx [OF None] using None
    by (auto simp: with_tx_simps)
qed

lemmas createApiKey_eval = createApiKey_def transaction_def dollar_createApiKey_def
  request_store_def with_tx_def get_d_0_id_def insert_api_key_def insert_api_key_role_def Let_def

lemma example_createApiKey:
  "createApiKey example_env ''application'' ''observer'' example_request 42 example_options example_world =
     (Inr ''generated-key'',
      \<lparr>db = example_tables\<lparr>
              api_keys := api_keys example_tables @
                 [\<lparr>ak_id = 100, ak_is_of__actor = 7, ak_key = ''generated-key'', ak_name = None,
                   ak_description = None\<rparr>],
              api_key_roles := api_key_roles example_tables @ [\<lparr>ahr_api_key = 100, ahr_role = 5\<rparr>],
              next_id := 101\<rparr>,
       log = [(Some 0, GetActorable ''application'' 42),
              (Some 0, PostCanAccess ''application'' 42 ''create-observer''),
              (Some 0, PostApiKey 7 ''generated-key'' None None),
              (Some 0, GetRole ''observer''),
              (Some 0, PostApiKeyHasRole 100 5)],
       comparisons = [], tx_count = 1\<rparr>)"
  by (simp add: createApiKey_eval example_defs example_options_def)

lemma example_createApiKey_role_lookup_rejected:
  "createApiKey (example_env\<lparr>rejects := \<lambda>t op. op = GetRole ''observer''\<rparr>)
      ''application'' ''observer'' example_request 42 example_options example_world =
     (Inl StoreError,
      \<lparr>db = example_tables,
       log = [(Some 0, GetActorable ''application'' 42),
              (Some 0, PostCanAccess ''application'' 42 ''create-observer''),
              (Some 0, PostApiKey 7 ''generated-key'' None None),
              (Some 0, GetRole ''observer'')],
       comparisons = [], tx_count = 1\<rparr>)"
  by (simp add: createApiKey_eval example_defs example_options_def)

lemma dollar_createApiKey_access_check:
  assumes "\<not> rejects e (Some (iopt_tx opts)) (GetActorable actorType actorTypeID)"
    and "map_of (actorables (db w)) (actorType, actorTypeID) = Some actorID"
    and "\<not> rejects e (Some (iopt_tx opts)) (PostCanAccess actorType actorTypeID (''create-'' @ roleName))"
  shows "(get_d_0_id (canAccess e req actorType actorTypeID (''create-'' @ roleName)) \<noteq> Some actorTypeID \<longrightarrow>
           dollar_createApiKey e actorType roleName req actorTypeID opts w =
             (Inl ForbiddenError,
              w\<lparr>log := log w @ [(Some (iopt_tx opts), GetActorable actorType actorTypeID),
                   (Some (iopt_tx opts), PostCanAccess actorType actorTypeID (''create-'' @ roleName))]\<rparr>)) \<and>
         (get_d_0_id (canAccess e req actorType actorTypeID (''create-'' @ roleName)) = Some actorTypeID \<longrightarrow>
           fst (dollar_createApiKey e actorType roleName req actorTypeID opts w) \<noteq> Inl ForbiddenError \<and>
           (\<exists>ops. log (snd (dollar_createApiKey e actorType roleName req actorTypeID opts w)) =
              log w @ [(Some (iopt_tx opts), GetActorable actorType actorTypeID),
                 (Some (iopt_tx opts), PostCanAccess actorType actorTypeID (''create-'' @ roleName)),
                 (Some (iopt_tx opts),
                  PostApiKey actorID (iopt_apiKey opts) (iopt_name opts) (iopt_description opts))] @ ops))"
proof (intro conjI impI)
  assume n: "get_d_0_id (canAccess e req actorType actorTypeID (''create-'' @ roleName)) \<noteq> Some actorTypeID"
  from dollar_createApiKey_forbidden [OF assms n]
  show "dollar_createApiKey e actorType roleName req actorTypeID opts w =
             (Inl ForbiddenError,
              w\<lparr>log := log w @ [(Some (iopt_tx opts), GetActorable actorType actorTypeID),
                   (Some (iopt_tx opts), PostCanAccess actorType actorTypeID (''create-'' @ roleName))]\<rparr>)" .
next
  assume y: "get_d_0_id (canAccess e req actorType actorTypeID (''create-'' @ roleName)) = Some actorTypeID"
  note d = dollar_createApiKey_allowed [OF assms y]
  show "fst (dollar_createApiKey e actorType roleName req actorTypeID opts w) \<noteq> Inl ForbiddenError"
    by (simp add: d Let_def split: list.splits)
  show "\<exists>ops. log (snd (dollar_createApiKey e actorType roleName req actorTypeID opts w)) =
              log w @ [(Some (iopt_tx opts), GetActorable actorType actorTypeID),
                 (Some (iopt_tx opts), PostCanAccess actorType actorTypeID (''create-'' @ roleName)),
                 (Some (iopt_tx opts),
                  PostApiKey actorID (iopt_apiKey opts) (iopt_name opts) (iopt_description opts))] @ ops"
    by (simp add: d Let_def split: list.splits)
qed

lemma createApiKey_fst_log:
  "fst (createApiKey e actorType roleName req actorTypeID options w) =
     fst (dollar_createApiKey e actorType roleName req actorTypeID
            (with_tx options (case opt_apiKey options of None \<Rightarrow> randomstring_generate e | Some k \<Rightarrow> k)
               (case opt_tx options of Some x \<Rightarrow> x | None \<Rightarrow> tx_count w))
            (case opt_tx options of Some x \<Rightarrow> w | None \<Rightarrow> w\<lparr>tx_count := Suc (tx_count w)\<rparr>))"
  "log (snd (createApiKey e actorType roleName req actorTypeID options w)) =
     log (snd (dollar_createApiKey e actorType roleName req actorTypeID
            (with_tx options (case opt_apiKey options of None \<Rightarrow> randomstring_generate e | Some k \<Rightarrow> k)
               (case opt_tx options of Some x \<Rightarrow> x | None \<Rightarrow> tx_count w))
            (case opt_tx options of Some x \<Rightarrow> w | None \<Rightarrow> w\<lparr>tx_count := Suc (tx_count w)\<rparr>)))"
  by (cases "opt_tx options";
      simp add: createApiKey_caller_tx createApiKey_own_tx split: prod.splits sum.splits)+

subsection \<open>Rejected requests are passed on\<close>

lemma rejected_since_append:
  "log w' = log w @ ops \<Longrightarrow> rejected_since e w w' = list_ex (\<lambda>(t, op). rejects e t op) ops"
  by (simp add: rejected_since_def)

lemma rejected_since_same_log: "log w' = log w \<Longrightarrow> \<not> rejected_since e w w'"
  by (simp add: rejected_since_def)

lemma findUser_propagates:
  "rejected_since e w (snd (findUser e s t select w)) \<longrightarrow>
     fst (findUser e s t select w) = Inl StoreError"
  by (cases "s = []") (simp_all add: findUser_empty findUser_nonempty rejected_since_def)

lemma setPassword_propagates:
  "rejected_since e w (snd (setPassword e user p t w)) \<longrightarrow>
     fst (setPassword e user p t w) = Inl StoreError"
  by (simp add: setPassword_eq rejected_since_def)

lemma comparePassword_log: "log (snd (comparePassword e p h w)) = log w"
  by (simp add: comparePassword_snd)

lemma comparePassword_log_pair: "comparePassword e p h w = (b, w2) \<Longrightarrow> log w2 = log w"
  using comparePassword_log [of e p h w] by simp

lemma checkUserPassword_propagates:
  "rejected_since e w (snd (checkUserPassword e p userId w)) \<longrightarrow>
     fst (checkUserPassword e p userId w) = Inl StoreError"
proof (cases "rejects e None (GetUserById userId)")
  case True
  then show ?thesis by (simp add: checkUserPassword_def request_store_def)
next
  case False
  then have "log (snd (checkUserPassword e p userId w)) = log w @ [(None, GetUserById userId)]"
    by (auto simp: checkUserPassword_def request_store_def Let_def
        split: option.splits prod.splits dest: comparePassword_log_pair)
  from rejected_since_append [OF this, of e] False show ?thesis by simp
qed

lemma getUser_propagates:
  "rejected_since e w (snd (snd (getUser e req required w))) \<longrightarrow>
     fst (getUser e req required w) = Inl StoreError"
  by (auto simp: getUser_def Let_def request_store_def rejected_since_def first_row_def
      split: sum.splits option.splits list.splits if_splits)

lemma dollar_createApiKey_propagates:
  "rejected_since e w (snd (dollar_createApiKey e actorType roleName req actorTypeID opts w)) \<longrightarrow>
     fst (dollar_createApiKey e actorType roleName req actorTypeID opts w) = Inl StoreError"
  by (auto simp: dollar_createApiKey_def Let_def request_store_def rejected_since_def
      split: option.splits list.splits if_splits)

lemma createApiKey_propagates:
  "rejected_since e w (snd (createApiKey e actorType roleName req actorTypeID options w)) \<longrightarrow>
     fst (createApiKey e actorType roleName req actorTypeID options w) = Inl StoreError"
proof -
  let ?w0 = "case opt_tx options of Some x \<Rightarrow> w | None \<Rightarrow> w\<lparr>tx_count := Suc (tx_count w)\<rparr>"
  have "log ?w0 = log w" by (simp split: option.splits)
  then have "rejected_since e w x = rejected_since e ?w0 x" for x
    by (simp add: rejected_since_def)
  then show ?thesis
    using dollar_createApiKey_propagates [of e ?w0 actorType roleName req actorTypeID]
    by (simp add: createApiKey_fst_log rejected_since_def)
qed

lemma findUser_rejected_iff:
  "rejected_since e w (snd (findUser e s t select w)) \<longleftrightarrow>
     fst (findUser e s t select w) = Inl StoreError"
  by (cases "s = []") (simp_all add: findUser_empty findUser_nonempty rejected_since_def)

lemma findUser_log_extends: "\<exists>ops. log (snd (findUser e s t select w)) = log w @ ops"
  by (simp add: findUser_snd)

lemma rejected_since_trans:
  assumes "log w1 = log w @ a" "log w2 = log w1 @ b"
  shows "rejected_since e w w2 \<longleftrightarrow> rejected_since e w w1 \<or> rejected_since e w1 w2"
  using assms by (simp add: rejected_since_def)

lemma registerUser_propagates:
  "rejected_since e w (snd (registerUser e d t req w)) \<longrightarrow>
     fst (registerUser e d t req w) = Inl StoreError"
proof (cases "ud_username d \<in> set USERNAME_BLACKLIST")
  case True
  then show ?thesis by (simp add: registerUser_blacklisted rejected_since_def)
next
  case bl: False
  obtain r1 w1 where f1: "findUser e (ud_email d) (Some t) [''id''] w = (r1, w1)"
    by (cases "findUser e (ud_email d) (Some t) [''id''] w")
  from findUser_rejected_iff [of e w "ud_email d" "Some t" "[''id'']"] f1
  have j1: "rejected_since e w w1 \<longleftrightarrow> r1 = Inl StoreError" by simp
  from findUser_log_extends [of e "ud_email d" "Some t" "[''id'']" w] f1
  obtain a where l1: "log w1 = log w @ a" by auto
  show ?thesis
  proof (cases r1)
    case (Inl err)
    with f1 findUser_Inl have "err = StoreError" by blast
    with registerUser_email_fails [OF bl, of e t w err w1 req] f1 Inl show ?thesis by simp
  next
    case (Inr found)
    show ?thesis
    proof (cases found)
      case (Some u)
      with registerUser_email_found [OF bl, of e t w u w1 req] f1 Inr j1 show ?thesis by simp
    next
      case None
      with f1 Inr have f1': "findUser e (ud_email d) (Some t) [''id''] w = (Inr None, w1)" by simp
      from j1 Inr have n1: "\<not> rejected_since e w w1" by simp
      obtain r2 w2 where f2: "findUser e (ud_username d) (Some t) [''id''] w1 = (r2, w2)"
        by (cases "findUser e (ud_username d) (Some t) [''id''] w1")
      from findUser_rejected_iff [of e w1 "ud_username d" "Some t" "[''id'']"] f2
      have j2: "rejected_since e w1 w2 \<longleftrightarrow> r2 = Inl StoreError" by simp
      from findUser_log_extends [of e "ud_username d" "Some t" "[''id'']" w1] f2
      obtain b where l2: "log w2 = log w1 @ b" by auto
      note tr = rejected_since_trans [OF l1 l2, of e]
      show ?thesis
      proof (cases r2)
        case (Inl err)
        with f2 findUser_Inl have "err = StoreError" by blast
        with registerUser_username_fails [OF bl f1', of err w2 req] f2 Inl show ?thesis by simp
      next
        case Inr2: (Inr found2)
        show ?thesis
        proof (cases found2)
          case (Some u)
          with registerUser_username_found [OF bl f1', of u w2 req] f2 Inr2 j2 n1 tr
          show ?thesis by simp
        next
          case None
          with f2 Inr2 have f2': "findUser e (ud_username d) (Some t) [''id''] w1 = (Inr None, w2)"
            by simp
          from j2 Inr2 have n2: "\<not> rejected_since e w1 w2" by simp
          let ?op = "PostUser d (case req of None \<Rightarrow> None | Some r \<Rightarrow> getIP e r)"
          have l3: "log (snd (registerUser e d t req w)) = log w2 @ [(Some t, ?op)]"
            by (rule registerUser_post_log [OF bl f1' f2'])
          from l1 l2 have l12: "log w2 = log w @ (a @ b)" by simp
          from rejected_since_trans [OF l12 l3, of e] tr n1 n2
          have "rejected_since e w (snd (registerUser e d t req w)) \<longleftrightarrow> rejects e (Some t) ?op"
            using rejected_since_append [OF l3, of e] by simp
          then show ?thesis
            by (simp add: registerUser_post [OF bl f1' f2'] Let_def)
        qed
      qed
    qed
  qed
qed

subsection \<open>The worked examples\<close>

lemma findUser_found:
  assumes "findUser e u t select w = (Inr (Some user), w1)"
  shows "w1 = w\<lparr>log := log w @ [(t, GetUser (loginField_of u) u select)]\<rparr>"
proof -
  from assms have "u \<noteq> []" by (auto simp: findUser_empty)
  with findUser_snd [of e u t select w] assms show ?thesis by simp
qed

lemmas findUser_eval = findUser_def loginField_of_def login_field_value_def request_store_def
  first_row_def defaultFindUser_select_def tolower_eval Let_def

lemma example_findUser_alice:
  "findUser e ''alice'' None defaultFindUser_select example_world =
     (if rejects e None (GetUser ''username'' ''alice'' defaultFindUser_select) then Inl StoreError
      else Inr (Some example_alice),
      example_world\<lparr>log := [(None, GetUser ''username'' ''alice'' defaultFindUser_select)]\<rparr>)"
  by (simp add: findUser_eval example_defs)

lemma example_findUser_nobody:
  "findUser example_env ''nobody'' None defaultFindUser_select example_world =
     (Inr None, example_world\<lparr>log := [(None, GetUser ''username'' ''nobody'' defaultFindUser_select)]\<rparr>)"
  by (simp add: findUser_eval example_defs)

text \<open>
  With a transaction of the caller nothing is rolled back by \<open>createApiKey\<close>: when the
  role lookup is rejected, the key row written before it is still in that transaction, and
  undoing it is left to the caller.
\<close>

lemma createApiKey_caller_tx_keeps_rows:
  "fst (createApiKey (example_env\<lparr>rejects := \<lambda>t op. op = GetRole ''observer''\<rparr>)
          ''application'' ''observer'' example_request 42 (example_options\<lparr>opt_tx := Some 9\<rparr>)
          example_world) = Inl StoreError \<and>
   api_keys (db (snd (createApiKey (example_env\<lparr>rejects := \<lambda>t op. op = GetRole ''observer''\<rparr>)
          ''application'' ''observer'' example_request 42 (example_options\<lparr>opt_tx := Some 9\<rparr>)
          example_world))) =
     api_keys example_tables @
       [\<lparr>ak_id = 100, ak_is_of__actor = 7, ak_key = ''generated-key'', ak_name = None,
         ak_description = None\<rparr>] \<and>
   api_key_roles (db (snd (createApiKey (example_env\<lparr>rejects := \<lambda>t op. op = GetRole ''observer''\<rparr>)
          ''application'' ''observer'' example_request 42 (example_options\<lparr>opt_tx := Some 9\<rparr>)
          example_world))) = api_key_roles example_tables"
  by (simp add: createApiKey_eval example_defs example_options_def)

section \<open>Password validation, the empty lookup and password comparison\<close>

text \<open>
  C8. \<open>validatePassword\<close> is a function of the password alone (it takes no store and
  returns none): a missing password and every password shorter than 8 characters fail with
  \<open>BadRequestError\<close>, every password of length at least 8 is accepted.
\<close>

theorem validatePassword_rejects_short_accepts_long:
  "validatePassword None = Inl (BadRequestError ''Password required.'') \<and>
   (\<forall>p. length p < 8 \<longrightarrow> (\<exists>m. validatePassword (Some p) = Inl (BadRequestError m))) \<and>
   (\<forall>p. 8 \<le> length p \<longrightarrow> validatePassword (Some p) = Inr ())"
  by (auto simp: validatePassword_def)

theorem validatePassword_rejects_short_accepts_long_witness:
  "length ''secret'' < 8 \<and>
   (\<exists>m. validatePassword (Some ''secret'') = Inl (BadRequestError m)) \<and>
   8 \<le> length ''12345678'' \<and> validatePassword (Some ''12345678'') = Inr ()"
proof -
  have short: "length ''secret'' < 8" by simp
  have long: "8 \<le> length ''12345678''" by simp
  from validatePassword_rejects_short_accepts_long short long show ?thesis by blast
qed

text \<open>
  C9. For the empty \<open>loginInfo\<close> (the one falsy string) \<open>findUser\<close> returns undefined and
  leaves the world, and so the log of store requests, as it was, whatever the transaction
  and the selected fields.
\<close>

theorem findUser_falsy_no_query:
  "findUser e [] t select w = (Inr None, w)"
  by (simp add: findUser_def)

theorem findUser_falsy_no_query_witness:
  "findUser example_env [] (Some 3) [''id''] example_world = (Inr None, example_world)"
  using findUser_falsy_no_query [of example_env "Some 3" "[''id'']" example_world] by simp

text \<open>
  C2 (as the code has it). With a null hash \<open>comparePassword\<close> calls the same primitive
  as with a stored hash, once, on the empty string (not on the password it was given) and
  the fixed dummy hash, and returns what the primitive answers; the dummy hash has the
  length and the prefix of a bcrypt hash.
\<close>

theorem comparePassword_null_hash_empty_string:
  "comparePassword e p None w =
     (Hashed_compare e [] DUMMY_HASH, w\<lparr>comparisons := comparisons w @ [([], DUMMY_HASH)]\<rparr>) \<and>
   comparePassword e p (Some h) w =
     (Hashed_compare e p h, w\<lparr>comparisons := comparisons w @ [(p, h)]\<rparr>) \<and>
   length DUMMY_HASH = 60 \<and> take 7 DUMMY_HASH = ''$2b$10$''"
  by (simp add: comparePassword_def runInvalidPasswordComparison_def Hashed_compare_call_def
      DUMMY_HASH_def)

theorem comparePassword_null_hash_empty_string_witness:
  "comparePassword example_env ''hunter22'' None example_world =
     (False, example_world\<lparr>comparisons := [([], DUMMY_HASH)]\<rparr>)"
  using comparePassword_null_hash_empty_string [of example_env "''hunter22''" example_world]
  by (simp add: example_env_def example_world_def DUMMY_HASH_def)

text \<open>
  C2 as stated fails: for the password \<open>hunter22\<close> and a null hash the one comparison
  made is of the empty string, not of \<open>hunter22\<close>, with the dummy hash.
\<close>

theorem comparePassword_null_hash_real_password_counterexample:
  "comparisons (snd (comparePassword example_env ''hunter22'' None example_world))
     = [([], DUMMY_HASH)] \<and>
   comparisons (snd (comparePassword example_env ''hunter22'' None example_world))
     \<noteq> [(''hunter22'', DUMMY_HASH)]"
  by (simp add: comparePassword_def runInvalidPasswordComparison_def Hashed_compare_call_def
      example_world_def)

section \<open>Registration\<close>

text \<open>
  C5 (as the code has it). A blacklisted username fails with \<open>ConflictError\<close> and the
  world, with its log of store requests, is untouched. Otherwise, for an email that
  contains \<open>@\<close> and a non-empty username that does not, and as long as the store
  answers the requests: a taken email (compared in lower case) gives \<open>ConflictError\<close>,
  then a taken username gives \<open>ConflictError\<close>, then the user is inserted; an answer
  without an id gives a plain \<open>Error\<close>, and otherwise the created record is returned.
\<close>

theorem registerUser_checks_in_order:
  "(ud_username d \<in> set USERNAME_BLACKLIST \<longrightarrow>
      registerUser e d t req w = (Inl (ConflictError ''This username is blacklisted''), w)) \<and>
   (ud_username d \<notin> set USERNAME_BLACKLIST \<and> CHR ''@'' \<in> set (ud_email d) \<and>
    ud_username d \<noteq> [] \<and> CHR ''@'' \<notin> set (ud_username d) \<longrightarrow>
      fst (registerUser e d t req w) =
       (if rejects e (Some t) (GetUser ''email'' (ud_email d) [''id'']) then Inl StoreError
        else if \<exists>u \<in> set (users (db w)). tolower (db_email u) = tolower (ud_email d)
          then Inl (ConflictError ''This email is already taken'')
        else if rejects e (Some t) (GetUser ''username'' (ud_username d) [''id'']) then Inl StoreError
        else if \<exists>u \<in> set (users (db w)). tolower (db_username u) = tolower (ud_username d)
          then Inl (ConflictError ''This username is already taken'')
        else if rejects e (Some t) (PostUser d (case req of None \<Rightarrow> None | Some r \<Rightarrow> getIP e r))
          then Inl StoreError
        else if omits_id e d then Inl (Error ''Error creating user in the platform'')
        else Inr \<lparr>posted_id = Some (next_id (db w)), posted_body = d\<rparr>))"
  using registerUser_blacklisted [of d e t req w] registerUser_valid_shape [of d e t req w]
  by blast

theorem registerUser_checks_in_order_witness:
  "registerUser example_env \<lparr>ud_username = ''root'', ud_email = ''r@example.com'', ud_password = None\<rparr>
      0 None example_world = (Inl (ConflictError ''This username is blacklisted''), example_world) \<and>
   fst (registerUser example_env \<lparr>ud_username = ''carol'', ud_email = ''ALICE@Example.com'', ud_password = None\<rparr>
      0 None example_world) = Inl (ConflictError ''This email is already taken'') \<and>
   fst (registerUser example_env \<lparr>ud_username = ''Alice'', ud_email = ''new@example.com'', ud_password = None\<rparr>
      0 None example_world) = Inl (ConflictError ''This username is already taken'') \<and>
   fst (registerUser example_env \<lparr>ud_username = ''carol'', ud_email = ''carol@example.com'', ud_password = None\<rparr>
      0 None example_world) =
     Inr \<lparr>posted_id = Some 100,
          posted_body = \<lparr>ud_username = ''carol'', ud_email = ''carol@example.com'', ud_password = None\<rparr>\<rparr> \<and>
   fst (registerUser (example_env\<lparr>omits_id := \<lambda>d. True\<rparr>)
      \<lparr>ud_username = ''carol'', ud_email = ''carol@example.com'', ud_password = None\<rparr>
      0 None example_world) = Inl (Error ''Error creating user in the platform'')"
proof (intro conjI)
  show "registerUser example_env \<lparr>ud_username = ''root'', ud_email = ''r@example.com'', ud_password = None\<rparr>
      0 None example_world = (Inl (ConflictError ''This username is blacklisted''), example_world)"
    using registerUser_checks_in_order
      [of "\<lparr>ud_username = ''root'', ud_email = ''r@example.com'', ud_password = None\<rparr>"
          example_env 0 None example_world]
    by (simp add: USERNAME_BLACKLIST_def)
  show "fst (registerUser example_env \<lparr>ud_username = ''carol'', ud_email = ''ALICE@Example.com'', ud_password = None\<rparr>
      0 None example_world) = Inl (ConflictError ''This email is already taken'')"
    using registerUser_checks_in_order
      [of "\<lparr>ud_username = ''carol'', ud_email = ''ALICE@Example.com'', ud_password = None\<rparr>"
          example_env 0 None example_world]
    by (simp add: USERNAME_BLACKLIST_def example_defs tolower_eval)
  show "fst (registerUser example_env \<lparr>ud_username = ''Alice'', ud_email = ''new@example.com'', ud_password = None\<rparr>
      0 None example_world) = Inl (ConflictError ''This username is already taken'')"
    using registerUser_checks_in_order
      [of "\<lparr>ud_username = ''Alice'', ud_email = ''new@example.com'', ud_password = None\<rparr>"
          example_env 0 None example_world]
    by (simp add: USERNAME_BLACKLIST_def example_defs tolower_eval)
  show "fst (registerUser example_env \<lparr>ud_username = ''carol'', ud_email = ''carol@example.com'', ud_password = None\<rparr>
      0 None example_world) =
     Inr \<lparr>posted_id = Some 100,
          posted_body = \<lparr>ud_username = ''carol'', ud_email = ''carol@example.com'', ud_password = None\<rparr>\<rparr>"
    using registerUser_checks_in_order
      [of "\<lparr>ud_username = ''carol'', ud_email = ''carol@example.com'', ud_password = None\<rparr>"
          example_env 0 None example_world]
    by (simp add: USERNAME_BLACKLIST_def example_defs tolower_eval)
  show "fst (registerUser (example_env\<lparr>omits_id := \<lambda>d. True\<rparr>)
      \<lparr>ud_username = ''carol'', ud_email = ''carol@example.com'', ud_password = None\<rparr>
      0 None example_world) = Inl (Error ''Error creating user in the platform'')"
    using registerUser_checks_in_order
      [of "\<lparr>ud_username = ''carol'', ud_email = ''carol@example.com'', ud_password = None\<rparr>"
          "example_env\<lparr>omits_id := \<lambda>d. True\<rparr>" 0 None example_world]
    by (simp add: USERNAME_BLACKLIST_def example_defs tolower_eval)
qed

text \<open>
  C5 as stated fails for an email without \<open>@\<close>: \<open>findUser\<close> then looks the string up
  among the usernames, so the email \<open>bob\<close>, which a stored user already has, is accepted
  and the user is created.
\<close>

theorem registerUser_email_taken_counterexample:
  "example_dave \<in> set (users (db example_world)) \<and>
   tolower (db_email example_dave) = tolower ''bob'' \<and>
   fst (registerUser example_env \<lparr>ud_username = ''carol'', ud_email = ''bob'', ud_password = None\<rparr>
      0 None example_world) =
     Inr \<lparr>posted_id = Some 100,
          posted_body = \<lparr>ud_username = ''carol'', ud_email = ''bob'', ud_password = None\<rparr>\<rparr>"
  by (simp add: registerUser_def findUser_def loginField_of_def login_field_value_def
      request_store_def insert_user_def first_row_def USERNAME_BLACKLIST_def Let_def
      example_defs tolower_eval)

text \<open>
  C10. The blacklist is \<open>['root']\<close> and membership is exact: a username that lowercases
  to \<open>root\<close> without being \<open>root\<close> is not refused as blacklisted, and the first request
  sent to the store is the uniqueness lookup for the email (for the username when the email
  is empty).
\<close>

theorem registerUser_blacklist_case_sensitive:
  "USERNAME_BLACKLIST = [''root''] \<and>
   (tolower (ud_username d) = ''root'' \<and> ud_username d \<noteq> ''root'' \<longrightarrow>
        fst (registerUser e d t req w) \<noteq> Inl (ConflictError ''This username is blacklisted'') \<and>
        take 1 (drop (length (log w)) (log (snd (registerUser e d t req w)))) =
          [(Some t,
            if ud_email d = [] then GetUser ''username'' (ud_username d) [''id'']
            else GetUser (if CHR ''@'' \<in> set (ud_email d) then ''email'' else ''username'')
                   (ud_email d) [''id''])])"
proof (intro conjI impI)
  show "USERNAME_BLACKLIST = [''root'']" by (simp add: USERNAME_BLACKLIST_def)
next
  assume a: "tolower (ud_username d) = ''root'' \<and> ud_username d \<noteq> ''root''"
  then have na: "CHR ''@'' \<notin> set (ud_username d)" "ud_username d \<noteq> []"
    using tolower_root_no_at by blast+
  from a have bl: "ud_username d \<notin> set USERNAME_BLACKLIST"
    by (simp add: USERNAME_BLACKLIST_def)
  obtain ops where ops: "log (snd (registerUser e d t req w)) =
           log (snd (findUser e (ud_email d) (Some t) [''id''] w)) @ ops"
     and ops': "fst (findUser e (ud_email d) (Some t) [''id''] w) = Inr None \<and> ud_username d \<noteq> [] \<longrightarrow>
              (\<exists>ops'. ops = (Some t, GetUser (loginField_of (ud_username d)) (ud_username d) [''id'']) # ops')"
    using registerUser_log_after_email [OF bl, of e t req w] by blast
  show "take 1 (drop (length (log w)) (log (snd (registerUser e d t req w)))) =
          [(Some t,
            if ud_email d = [] then GetUser ''username'' (ud_username d) [''id'']
            else GetUser (if CHR ''@'' \<in> set (ud_email d) then ''email'' else ''username'')
                   (ud_email d) [''id''])]"
  proof (cases "ud_email d = []")
    case True
    then have "findUser e (ud_email d) (Some t) [''id''] w = (Inr None, w)"
      by (simp add: findUser_empty)
    with ops ops' na True show ?thesis
      by (auto simp: loginField_of_username)
  next
    case False
    with ops show ?thesis by (simp add: findUser_snd loginField_of_def)
  qed
  show "fst (registerUser e d t req w) \<noteq> Inl (ConflictError ''This username is blacklisted'')"
    by (rule registerUser_not_blacklist_conflict [OF bl])
qed

theorem registerUser_blacklist_case_sensitive_witness:
  "tolower ''Root'' = ''root'' \<and> ''Root'' \<noteq> ''root'' \<and>
   fst (registerUser example_env \<lparr>ud_username = ''Root'', ud_email = ''r@example.com'', ud_password = None\<rparr>
          0 None example_world) \<noteq> Inl (ConflictError ''This username is blacklisted'') \<and>
   take 1 (drop (length (log example_world))
      (log (snd (registerUser example_env
         \<lparr>ud_username = ''Root'', ud_email = ''r@example.com'', ud_password = None\<rparr> 0 None example_world)))) =
     [(Some 0, GetUser ''email'' ''r@example.com'' [''id''])]"
proof -
  have h: "tolower ''Root'' = ''root'' \<and> ''Root'' \<noteq> ''root''"
    by (simp add: tolower_eval)
  from registerUser_blacklist_case_sensitive
    [of "\<lparr>ud_username = ''Root'', ud_email = ''r@example.com'', ud_password = None\<rparr>"
        example_env 0 None example_world] h
  show ?thesis by simp
qed

section \<open>Resolving the user of a request\<close>

text \<open>
  C3. Let \<open>req0\<close> be the request as the API key pre-resolution leaves it. With no user, no
  credentials and no API key on it, \<open>getUser\<close> with \<open>required\<close> fails with
  \<open>UnauthorizedError\<close>; with credentials but no user it fails with \<open>UnauthorizedError\<close>
  "User has not been authorized"; with an API key whose non-empty key string belongs to
  no user's actor (the store answering the lookup) it fails with \<open>UnauthorizedError\<close>
  "User not found for API key". Without \<open>required\<close> each of the three returns undefined.
\<close>

theorem getUser_required_unauthorized:
  "retrieveAPIKey e req = Inr req0 \<longrightarrow>
   (req_user req0 = None \<and> req_creds req0 = None \<and> req_apiKey req0 = None \<longrightarrow>
      getUser e req True w = (Inl (UnauthorizedError ''Request has no JWT or API key''), req0, w) \<and>
      getUser e req False w = (Inr None, req0, w)) \<and>
   (req_creds req0 \<noteq> None \<and> req_user req0 = None \<longrightarrow>
      getUser e req True w = (Inl (UnauthorizedError ''User has not been authorized''), req0, w) \<and>
      getUser e req False w = (Inr None, req0, w)) \<and>
   (req_user req0 = None \<and> req_creds req0 = None \<and> req_apiKey req0 = Some k \<and>
    rk_key k = Some key \<and> key \<noteq> [] \<and> \<not> rejects e None (GetUserByApiKey key) \<and>
    (\<forall>u \<in> set (users (db w)). \<forall>a \<in> set (api_keys (db w)).
        \<not> (ak_is_of__actor a = db_actor u \<and> ak_key a = key)) \<longrightarrow>
      fst (getUser e req True w) = Inl (UnauthorizedError ''User not found for API key'') \<and>
      fst (getUser e req False w) = Inr None)"
proof (intro impI conjI)
  assume r: "retrieveAPIKey e req = Inr req0"
  {
    assume a: "req_user req0 = None \<and> req_creds req0 = None \<and> req_apiKey req0 = None"
    then show "getUser e req True w = (Inl (UnauthorizedError ''Request has no JWT or API key''), req0, w)"
      using getUser_no_api_key [OF r, of True w] by simp
    from a show "getUser e req False w = (Inr None, req0, w)"
      using getUser_no_api_key [OF r, of False w] by simp
  }
  {
    assume a: "req_creds req0 \<noteq> None \<and> req_user req0 = None"
    then show "getUser e req True w = (Inl (UnauthorizedError ''User has not been authorized''), req0, w)"
      using getUser_creds_attached [OF r, of True w] by simp
    from a show "getUser e req False w = (Inr None, req0, w)"
      using getUser_creds_attached [OF r, of False w] by simp
  }
  {
    assume a: "req_user req0 = None \<and> req_creds req0 = None \<and> req_apiKey req0 = Some k \<and>
      rk_key k = Some key \<and> key \<noteq> [] \<and> \<not> rejects e None (GetUserByApiKey key) \<and>
      (\<forall>u \<in> set (users (db w)). \<forall>a \<in> set (api_keys (db w)).
          \<not> (ak_is_of__actor a = db_actor u \<and> ak_key a = key))"
    then have q: "getUserQuery (db w) key = []"
      by (simp add: getUserQuery_empty)
    from a have l: "\<And>required. getUser e req required w =
       (let w1 = w\<lparr>log := log w @ [(None, GetUserByApiKey key)]\<rparr>
        in if rejects e None (GetUserByApiKey key) then (Inl StoreError, req0, w1)
         else (case getUserQuery (db w) key of
                 [] \<Rightarrow> (if required then Inl (UnauthorizedError ''User not found for API key'')
                        else Inr None, req0, w1)
               | user # rest \<Rightarrow>
                   (Inr (Some (pick_userFields user)),
                    req0\<lparr>req_user := Some (pick_userFields user),
                         req_creds := Some (pick_userFields user)\<rparr>, w1)))"
      using getUser_lookup [OF r, of k key] by blast
    from a q show "fst (getUser e req True w) = Inl (UnauthorizedError ''User not found for API key'')"
      by (simp add: l Let_def)
    from a q show "fst (getUser e req False w) = Inr None"
      by (simp add: l Let_def)
  }
qed

theorem getUser_required_unauthorized_witness:
  "getUser example_env example_request True example_world =
     (Inl (UnauthorizedError ''Request has no JWT or API key''), example_request, example_world) \<and>
   getUser example_env example_request False example_world = (Inr None, example_request, example_world) \<and>
   getUser example_env (example_request\<lparr>req_creds := Some example_user\<rparr>) True example_world =
     (Inl (UnauthorizedError ''User has not been authorized''),
      example_request\<lparr>req_creds := Some example_user\<rparr>, example_world) \<and>
   getUser example_env (example_request\<lparr>req_creds := Some example_user\<rparr>) False example_world =
     (Inr None, example_request\<lparr>req_creds := Some example_user\<rparr>, example_world) \<and>
   fst (getUser example_env (example_request\<lparr>req_apiKey := Some \<lparr>rk_key = Some ''unknown-key''\<rparr>\<rparr>)
          True example_world) = Inl (UnauthorizedError ''User not found for API key'') \<and>
   fst (getUser example_env (example_request\<lparr>req_apiKey := Some \<lparr>rk_key = Some ''unknown-key''\<rparr>\<rparr>)
          False example_world) = Inr None"
proof -
  have r1: "retrieveAPIKey example_env example_request = Inr example_request"
    by (simp add: retrieveAPIKey_example example_request_def)
  have r2: "retrieveAPIKey example_env (example_request\<lparr>req_creds := Some example_user\<rparr>)
              = Inr (example_request\<lparr>req_creds := Some example_user\<rparr>)"
    by (simp add: retrieveAPIKey_example example_request_def)
  have r3: "retrieveAPIKey example_env (example_request\<lparr>req_apiKey := Some \<lparr>rk_key = Some ''unknown-key''\<rparr>\<rparr>)
              = Inr (example_request\<lparr>req_apiKey := Some \<lparr>rk_key = Some ''unknown-key''\<rparr>\<rparr>)"
    by (simp add: retrieveAPIKey_example example_request_def)
  have a: "getUser example_env example_request True example_world =
     (Inl (UnauthorizedError ''Request has no JWT or API key''), example_request, example_world) \<and>
     getUser example_env example_request False example_world = (Inr None, example_request, example_world)"
    using getUser_required_unauthorized
      [where e = example_env and req = example_request and ?req0.0 = example_request
         and w = example_world] r1
    by (simp add: example_request_def)
  have b: "getUser example_env (example_request\<lparr>req_creds := Some example_user\<rparr>) True example_world =
     (Inl (UnauthorizedError ''User has not been authorized''),
      example_request\<lparr>req_creds := Some example_user\<rparr>, example_world) \<and>
     getUser example_env (example_request\<lparr>req_creds := Some example_user\<rparr>) False example_world =
     (Inr None, example_request\<lparr>req_creds := Some example_user\<rparr>, example_world)"
    using getUser_required_unauthorized
      [where e = example_env and req = "example_request\<lparr>req_creds := Some example_user\<rparr>"
         and ?req0.0 = "example_request\<lparr>req_creds := Some example_user\<rparr>"
         and w = example_world] r2
    by (simp add: example_request_def)
  have c: "fst (getUser example_env (example_request\<lparr>req_apiKey := Some \<lparr>rk_key = Some ''unknown-key''\<rparr>\<rparr>)
          True example_world) = Inl (UnauthorizedError ''User not found for API key'') \<and>
     fst (getUser example_env (example_request\<lparr>req_apiKey := Some \<lparr>rk_key = Some ''unknown-key''\<rparr>\<rparr>)
          False example_world) = Inr None"
    using getUser_required_unauthorized
      [where e = example_env
         and req = "example_request\<lparr>req_apiKey := Some \<lparr>rk_key = Some ''unknown-key''\<rparr>\<rparr>"
         and ?req0.0 = "example_request\<lparr>req_apiKey := Some \<lparr>rk_key = Some ''unknown-key''\<rparr>\<rparr>"
         and w = example_world and k = "\<lparr>rk_key = Some ''unknown-key''\<rparr>" and key = "''unknown-key''"] r3
    by (simp add: example_defs)
  from a b c show ?thesis by simp
qed

text \<open>
  C7. When \<open>getUser\<close> returns a user after sending its lookup to the store (the user was
  resolved from the API key), the request it leaves has that user in both the user and the
  credentials slot; a second call on that request, the middlewares leaving the two slots
  alone, returns the same user and the same world: no request is sent to the store.
\<close>

theorem getUser_caches_api_key_user:
  "getUser e req required w = (Inr (Some u), req', w') \<and> log w' \<noteq> log w \<longrightarrow>
     req_user req' = Some u \<and> req_creds req' = Some u \<and>
     (\<forall>req''. retrieveAPIKey e req' = Inr req'' \<and> req_user req'' = req_user req' \<and>
             req_creds req'' = req_creds req' \<longrightarrow>
        getUser e req' required' w' = (Inr (Some u), req'', w'))"
proof (intro impI)
  assume a: "getUser e req required w = (Inr (Some u), req', w') \<and> log w' \<noteq> log w"
  have slots: "req_user req' = Some u \<and> req_creds req' = Some u"
    using a
    by (auto simp: getUser_def Let_def request_store_def first_row_def
        split: sum.splits if_splits option.splits list.splits)
  have again: "getUser e req' required' w' = (Inr (Some u), req'', w')"
    if "retrieveAPIKey e req' = Inr req'' \<and> req_user req'' = req_user req' \<and>
             req_creds req'' = req_creds req'" for req''
    using that slots getUser_creds_attached [of e req' req'' required' w'] by simp
  from slots again
  show "req_user req' = Some u \<and> req_creds req' = Some u \<and>
     (\<forall>req''. retrieveAPIKey e req' = Inr req'' \<and> req_user req'' = req_user req' \<and>
             req_creds req'' = req_creds req' \<longrightarrow>
        getUser e req' required' w' = (Inr (Some u), req'', w'))"
    by blast
qed

theorem getUser_caches_api_key_user_witness:
  "getUser example_env (example_request\<lparr>req_apiKey := Some \<lparr>rk_key = Some ''alice-key''\<rparr>\<rparr>) True example_world =
     (Inr (Some example_user),
      example_request\<lparr>req_apiKey := Some \<lparr>rk_key = Some ''alice-key''\<rparr>,
                      req_user := Some example_user, req_creds := Some example_user\<rparr>,
      example_world\<lparr>log := [(None, GetUserByApiKey ''alice-key'')]\<rparr>) \<and>
   getUser example_env
      (example_request\<lparr>req_apiKey := Some \<lparr>rk_key = Some ''alice-key''\<rparr>,
                      req_user := Some example_user, req_creds := Some example_user\<rparr>)
      True (example_world\<lparr>log := [(None, GetUserByApiKey ''alice-key'')]\<rparr>) =
     (Inr (Some example_user),
      example_request\<lparr>req_apiKey := Some \<lparr>rk_key = Some ''alice-key''\<rparr>,
                      req_user := Some example_user, req_creds := Some example_user\<rparr>,
      example_world\<lparr>log := [(None, GetUserByApiKey ''alice-key'')]\<rparr>)"
proof -
  let ?req = "example_request\<lparr>req_apiKey := Some \<lparr>rk_key = Some ''alice-key''\<rparr>\<rparr>"
  let ?req' = "example_request\<lparr>req_apiKey := Some \<lparr>rk_key = Some ''alice-key''\<rparr>,
                      req_user := Some example_user, req_creds := Some example_user\<rparr>"
  let ?w' = "example_world\<lparr>log := [(None, GetUserByApiKey ''alice-key'')]\<rparr>"
  have r: "retrieveAPIKey example_env ?req = Inr ?req"
    by (simp add: retrieveAPIKey_example example_request_def)
  have first: "getUser example_env ?req True example_world = (Inr (Some example_user), ?req', ?w')"
    using getUser_lookup [OF r, of "\<lparr>rk_key = Some ''alice-key''\<rparr>" "''alice-key''" True example_world]
    by (simp add: example_defs example_user_def getUserQuery_def pick_userFields_def Let_def)
  have changed: "log ?w' \<noteq> log example_world"
    by (simp add: example_world_def)
  have r': "retrieveAPIKey example_env ?req' = Inr ?req'"
    by (simp add: retrieveAPIKey_example example_request_def)
  from getUser_caches_api_key_user
    [where e = example_env and req = ?req and required = True and w = example_world
       and u = example_user and req' = ?req' and w' = ?w' and required' = True]
    first changed r'
  show ?thesis by simp
qed

section \<open>Issuing API keys\<close>

text \<open>
  C1. When \<open>createApiKey\<close> returns a key, it is the key string supplied or generated, one
  row for it was appended to the API keys and one binding of that row to the role found by
  name was appended to the role bindings (the only binding of the new id when the id was
  unused). When it fails and no transaction was supplied, the tables are as before the
  call; a rejected or empty role lookup and a rejected binding insertion are such failures.
  So without a caller's transaction a call keeps "every API key has a role binding".
\<close>

theorem createApiKey_key_and_role_atomic:
  "createApiKey e actorType roleName req actorTypeID options w = (r, w') \<longrightarrow>
   (\<forall>k. r = Inr k \<longrightarrow>
        k = (case opt_apiKey options of None \<Rightarrow> randomstring_generate e | Some x \<Rightarrow> x) \<and>
        (\<exists>actorID ro rest.
           map_of (actorables (db w)) (actorType, actorTypeID) = Some actorID \<and>
           filter (\<lambda>x. role_name x = roleName) (roles (db w)) = ro # rest \<and>
           api_keys (db w') = api_keys (db w) @
             [\<lparr>ak_id = next_id (db w), ak_is_of__actor = actorID, ak_key = k,
               ak_name = opt_name options, ak_description = opt_description options\<rparr>] \<and>
           api_key_roles (db w') = api_key_roles (db w) @
             [\<lparr>ahr_api_key = next_id (db w), ahr_role = role_id ro\<rparr>]) \<and>
        (list_all (\<lambda>b. ahr_api_key b \<noteq> next_id (db w)) (api_key_roles (db w)) \<longrightarrow>
           length (filter (\<lambda>b. ahr_api_key b = next_id (db w)) (api_key_roles (db w'))) = 1)) \<and>
   (\<forall>err. r = Inl err \<and> opt_tx options = None \<longrightarrow> db w' = db w) \<and>
   (opt_tx options = None \<and>
      (rejects e (Some (tx_count w)) (GetRole roleName) \<or>
       (\<forall>ro \<in> set (roles (db w)). role_name ro \<noteq> roleName) \<or>
       (\<forall>roleId. rejects e (Some (tx_count w)) (PostApiKeyHasRole (next_id (db w)) roleId)) )
      \<longrightarrow> (\<exists>err. r = Inl err) \<and> db w' = db w) \<and>
   (opt_tx options = None \<and> every_key_has_role (db w) \<longrightarrow> every_key_has_role (db w'))"
proof (intro impI)
  assume c: "createApiKey e actorType roleName req actorTypeID options w = (r, w')"
  let ?key = "case opt_apiKey options of None \<Rightarrow> randomstring_generate e | Some x \<Rightarrow> x"
  let ?t = "case opt_tx options of Some x \<Rightarrow> x | None \<Rightarrow> tx_count w"
  from createApiKey_outcomes [of e actorType roleName req actorTypeID options w] c
  consider
      (unchanged) err where "r = Inl err" "db w' = db w"
    | (orphan) err where "r = Inl err" "opt_tx options \<noteq> None"
    | (bound) actorID ro rest where "r = Inr ?key"
        "db w' = insert_api_key_role (next_id (db w)) (role_id ro)
                   (insert_api_key actorID ?key (opt_name options) (opt_description options) (db w))"
        "map_of (actorables (db w)) (actorType, actorTypeID) = Some actorID"
        "filter (\<lambda>r. role_name r = roleName) (roles (db w)) = ro # rest"
        "\<not> rejects e (Some ?t) (GetRole roleName)"
        "\<not> rejects e (Some ?t) (PostApiKeyHasRole (next_id (db w)) (role_id ro))"
    by auto
  then show "(\<forall>k. r = Inr k \<longrightarrow>
        k = ?key \<and>
        (\<exists>actorID ro rest.
           map_of (actorables (db w)) (actorType, actorTypeID) = Some actorID \<and>
           filter (\<lambda>x. role_name x = roleName) (roles (db w)) = ro # rest \<and>
           api_keys (db w') = api_keys (db w) @
             [\<lparr>ak_id = next_id (db w), ak_is_of__actor = actorID, ak_key = k,
               ak_name = opt_name options, ak_description = opt_description options\<rparr>] \<and>
           api_key_roles (db w') = api_key_roles (db w) @
             [\<lparr>ahr_api_key = next_id (db w), ahr_role = role_id ro\<rparr>]) \<and>
        (list_all (\<lambda>b. ahr_api_key b \<noteq> next_id (db w)) (api_key_roles (db w)) \<longrightarrow>
           length (filter (\<lambda>b. ahr_api_key b = next_id (db w)) (api_key_roles (db w'))) = 1)) \<and>
   (\<forall>err. r = Inl err \<and> opt_tx options = None \<longrightarrow> db w' = db w) \<and>
   (opt_tx options = None \<and>
      (rejects e (Some (tx_count w)) (GetRole roleName) \<or>
       (\<forall>ro \<in> set (roles (db w)). role_name ro \<noteq> roleName) \<or>
       (\<forall>roleId. rejects e (Some (tx_count w)) (PostApiKeyHasRole (next_id (db w)) roleId)) )
      \<longrightarrow> (\<exists>err. r = Inl err) \<and> db w' = db w) \<and>
   (opt_tx options = None \<and> every_key_has_role (db w) \<longrightarrow> every_key_has_role (db w'))"
  proof cases
    case unchanged
    then show ?thesis by simp
  next
    case orphan
    then show ?thesis by auto
  next
    case bound
    have rows: "api_keys (db w') = api_keys (db w) @
             [\<lparr>ak_id = next_id (db w), ak_is_of__actor = actorID, ak_key = ?key,
               ak_name = opt_name options, ak_description = opt_description options\<rparr>]"
      "api_key_roles (db w') = api_key_roles (db w) @
             [\<lparr>ahr_api_key = next_id (db w), ahr_role = role_id ro\<rparr>]"
      by (simp_all add: bound(2) insert_api_key_role_def insert_api_key_def)
    have one: "length (filter (\<lambda>b. ahr_api_key b = next_id (db w)) (api_key_roles (db w'))) = 1"
      if "list_all (\<lambda>b. ahr_api_key b \<noteq> next_id (db w)) (api_key_roles (db w))"
    proof -
      from that have "filter (\<lambda>b. ahr_api_key b = next_id (db w)) (api_key_roles (db w)) = []"
        by (simp add: filter_empty_conv list_all_iff)
      then show ?thesis by (simp add: rows(2))
    qed
    have inv: "every_key_has_role (db w')" if "every_key_has_role (db w)"
      using every_key_has_role_insert [OF that] by (simp add: bound(2))
    have role: "\<exists>x \<in> set (roles (db w)). role_name x = roleName"
    proof -
      have "ro \<in> set (filter (\<lambda>r. role_name r = roleName) (roles (db w)))"
        by (simp add: bound(4))
      then show ?thesis by auto
    qed
    have nofail: "\<not> (opt_tx options = None \<and>
      (rejects e (Some (tx_count w)) (GetRole roleName) \<or>
       (\<forall>ro \<in> set (roles (db w)). role_name ro \<noteq> roleName) \<or>
       (\<forall>roleId. rejects e (Some (tx_count w)) (PostApiKeyHasRole (next_id (db w)) roleId))))"
      using bound(5,6) role by auto
    have c1: "\<forall>k. r = Inr k \<longrightarrow>
        k = ?key \<and>
        (\<exists>actorID ro rest.
           map_of (actorables (db w)) (actorType, actorTypeID) = Some actorID \<and>
           filter (\<lambda>x. role_name x = roleName) (roles (db w)) = ro # rest \<and>
           api_keys (db w') = api_keys (db w) @
             [\<lparr>ak_id = next_id (db w), ak_is_of__actor = actorID, ak_key = k,
               ak_name = opt_name options, ak_description = opt_description options\<rparr>] \<and>
           api_key_roles (db w') = api_key_roles (db w) @
             [\<lparr>ahr_api_key = next_id (db w), ahr_role = role_id ro\<rparr>]) \<and>
        (list_all (\<lambda>b. ahr_api_key b \<noteq> next_id (db w)) (api_key_roles (db w)) \<longrightarrow>
           length (filter (\<lambda>b. ahr_api_key b = next_id (db w)) (api_key_roles (db w'))) = 1)"
    proof (intro allI impI)
      fix k
      assume "r = Inr k"
      with bound(1) have k: "k = ?key" by simp
      from bound(3,4) rows have "\<exists>actorID ro rest.
           map_of (actorables (db w)) (actorType, actorTypeID) = Some actorID \<and>
           filter (\<lambda>x. role_name x = roleName) (roles (db w)) = ro # rest \<and>
           api_keys (db w') = api_keys (db w) @
             [\<lparr>ak_id = next_id (db w), ak_is_of__actor = actorID, ak_key = ?key,
               ak_name = opt_name options, ak_description = opt_description options\<rparr>] \<and>
           api_key_roles (db w') = api_key_roles (db w) @
             [\<lparr>ahr_api_key = next_id (db w), ahr_role = role_id ro\<rparr>]"
        by blast
      with k one show "k = ?key \<and>
        (\<exists>actorID ro rest.
           map_of (actorables (db w)) (actorType, actorTypeID) = Some actorID \<and>
           filter (\<lambda>x. role_name x = roleName) (roles (db w)) = ro # rest \<and>
           api_keys (db w') = api_keys (db w) @
             [\<lparr>ak_id = next_id (db w), ak_is_of__actor = actorID, ak_key = k,
               ak_name = opt_name options, ak_description = opt_description options\<rparr>] \<and>
           api_key_roles (db w') = api_key_roles (db w) @
             [\<lparr>ahr_api_key = next_id (db w), ahr_role = role_id ro\<rparr>]) \<and>
        (list_all (\<lambda>b. ahr_api_key b \<noteq> next_id (db w)) (api_key_roles (db w)) \<longrightarrow>
           length (filter (\<lambda>b. ahr_api_key b = next_id (db w)) (api_key_roles (db w'))) = 1)"
        by simp
    qed
    have c2: "\<forall>err. r = Inl err \<and> opt_tx options = None \<longrightarrow> db w' = db w"
      using bound(1) by simp
    from c1 c2 nofail inv show ?thesis by blast
  qed
qed

theorem createApiKey_key_and_role_atomic_witness:
  "fst (createApiKey example_env ''application'' ''observer'' example_request 42 example_options
          example_world) = Inr ''generated-key'' \<and>
   length (filter (\<lambda>b. ahr_api_key b = 100)
      (api_key_roles (db (snd (createApiKey example_env ''application'' ''observer'' example_request 42
          example_options example_world))))) = 1 \<and>
   every_key_has_role (db (snd (createApiKey example_env ''application'' ''observer'' example_request 42
          example_options example_world))) \<and>
   fst (createApiKey (example_env\<lparr>rejects := \<lambda>t op. op = GetRole ''observer''\<rparr>)
          ''application'' ''observer'' example_request 42 example_options example_world) = Inl StoreError \<and>
   db (snd (createApiKey (example_env\<lparr>rejects := \<lambda>t op. op = GetRole ''observer''\<rparr>)
          ''application'' ''observer'' example_request 42 example_options example_world)) = db example_world"
proof -
  let ?ok = "createApiKey example_env ''application'' ''observer'' example_request 42 example_options
          example_world"
  let ?bad = "createApiKey (example_env\<lparr>rejects := \<lambda>t op. op = GetRole ''observer''\<rparr>)
          ''application'' ''observer'' example_request 42 example_options example_world"
  have ok: "fst ?ok = Inr ''generated-key''" by (simp add: example_createApiKey)
  have bad: "fst ?bad = Inl StoreError" by (simp add: example_createApiKey_role_lookup_rejected)
  have own: "opt_tx example_options = None" by (simp add: example_options_def)
  have fresh: "list_all (\<lambda>b. ahr_api_key b \<noteq> next_id (db example_world)) (api_key_roles (db example_world))"
    by (simp add: example_defs)
  have inv: "every_key_has_role (db example_world)"
    by (simp add: example_defs every_key_has_role_def)
  have nid: "next_id (db example_world) = 100" by (simp add: example_defs)
  have rej: "rejects (example_env\<lparr>rejects := \<lambda>t op. op = GetRole ''observer''\<rparr>)
               (Some (tx_count example_world)) (GetRole ''observer'')"
    by simp
  have eq_ok: "?ok = (fst ?ok, snd ?ok)" by simp
  have eq_bad: "?bad = (fst ?bad, snd ?bad)" by simp
  from createApiKey_key_and_role_atomic
    [of example_env "''application''" "''observer''" example_request 42 example_options example_world
        "fst ?ok" "snd ?ok", THEN mp, OF eq_ok] ok own fresh inv nid
  have a: "length (filter (\<lambda>b. ahr_api_key b = 100) (api_key_roles (db (snd ?ok)))) = 1 \<and>
           every_key_has_role (db (snd ?ok))"
    by simp
  from createApiKey_key_and_role_atomic
    [of "example_env\<lparr>rejects := \<lambda>t op. op = GetRole ''observer''\<rparr>" "''application''" "''observer''"
        example_request 42 example_options example_world "fst ?bad" "snd ?bad", THEN mp, OF eq_bad]
    bad own rej
  have b: "db (snd ?bad) = db example_world"
    by simp
  from ok bad a b show ?thesis by simp
qed

text \<open>
  C4. Once the target entity's actor is found and the access check is answered: if the id of
  the first row of the answer is not \<open>actorTypeID\<close> (or there is no such row or id),
  \<open>createApiKey\<close> fails with \<open>ForbiddenError\<close>, the tables are unchanged and the only
  requests sent are the actor lookup and the access check; if it is \<open>actorTypeID\<close> the
  result is not \<open>ForbiddenError\<close> and the next request sent is the insertion of the key.
\<close>

theorem createApiKey_forbidden_unless_same_id:
  "t = (case opt_tx options of Some x \<Rightarrow> x | None \<Rightarrow> tx_count w) \<and>
   key = (case opt_apiKey options of None \<Rightarrow> randomstring_generate e | Some x \<Rightarrow> x) \<and>
   \<not> rejects e (Some t) (GetActorable actorType actorTypeID) \<and>
   map_of (actorables (db w)) (actorType, actorTypeID) = Some actorID \<and>
   \<not> rejects e (Some t) (PostCanAccess actorType actorTypeID (''create-'' @ roleName)) \<longrightarrow>
   (get_d_0_id (canAccess e req actorType actorTypeID (''create-'' @ roleName)) \<noteq> Some actorTypeID \<longrightarrow>
      fst (createApiKey e actorType roleName req actorTypeID options w) = Inl ForbiddenError \<and>
      db (snd (createApiKey e actorType roleName req actorTypeID options w)) = db w \<and>
      log (snd (createApiKey e actorType roleName req actorTypeID options w)) =
        log w @ [(Some t, GetActorable actorType actorTypeID),
                 (Some t, PostCanAccess actorType actorTypeID (''create-'' @ roleName))]) \<and>
   (get_d_0_id (canAccess e req actorType actorTypeID (''create-'' @ roleName)) = Some actorTypeID \<longrightarrow>
      fst (createApiKey e actorType roleName req actorTypeID options w) \<noteq> Inl ForbiddenError \<and>
      take 3 (drop (length (log w)) (log (snd (createApiKey e actorType roleName req actorTypeID options w)))) =
        [(Some t, GetActorable actorType actorTypeID),
         (Some t, PostCanAccess actorType actorTypeID (''create-'' @ roleName)),
         (Some t, PostApiKey actorID key (opt_name options) (opt_description options))])"
proof (intro impI)
  assume a: "t = (case opt_tx options of Some x \<Rightarrow> x | None \<Rightarrow> tx_count w) \<and>
   key = (case opt_apiKey options of None \<Rightarrow> randomstring_generate e | Some x \<Rightarrow> x) \<and>
   \<not> rejects e (Some t) (GetActorable actorType actorTypeID) \<and>
   map_of (actorables (db w)) (actorType, actorTypeID) = Some actorID \<and>
   \<not> rejects e (Some t) (PostCanAccess actorType actorTypeID (''create-'' @ roleName))"
  define w0 where "w0 = (case opt_tx options of Some x \<Rightarrow> w | None \<Rightarrow> w\<lparr>tx_count := Suc (tx_count w)\<rparr>)"
  define opts where "opts = with_tx options key t"
  have w0: "db w0 = db w" "log w0 = log w"
    by (simp_all add: w0_def split: option.splits)
  have o: "iopt_tx opts = t" "iopt_apiKey opts = key" "iopt_name opts = opt_name options"
    "iopt_description opts = opt_description options"
    by (simp_all add: opts_def with_tx_simps)
  from a have a1: "t = (case opt_tx options of Some x \<Rightarrow> x | None \<Rightarrow> tx_count w)"
    and a2: "key = (case opt_apiKey options of None \<Rightarrow> randomstring_generate e | Some x \<Rightarrow> x)"
    and a3: "\<not> rejects e (Some t) (GetActorable actorType actorTypeID)"
    and a4: "map_of (actorables (db w)) (actorType, actorTypeID) = Some actorID"
    and a5: "\<not> rejects e (Some t) (PostCanAccess actorType actorTypeID (''create-'' @ roleName))"
    by blast+
  from a3 a4 a5 have h: "\<not> rejects e (Some (iopt_tx opts)) (GetActorable actorType actorTypeID)"
    "map_of (actorables (db w0)) (actorType, actorTypeID) = Some actorID"
    "\<not> rejects e (Some (iopt_tx opts)) (PostCanAccess actorType actorTypeID (''create-'' @ roleName))"
    by (simp_all add: o w0)
  note chk = dollar_createApiKey_access_check [OF h, of req, unfolded o w0]
  have f: "fst (createApiKey e actorType roleName req actorTypeID options w) =
      fst (dollar_createApiKey e actorType roleName req actorTypeID opts w0)"
    and l: "log (snd (createApiKey e actorType roleName req actorTypeID options w)) =
      log (snd (dollar_createApiKey e actorType roleName req actorTypeID opts w0))"
    by (simp_all only: createApiKey_fst_log opts_def w0_def a1 a2)
  have dbf: "db (snd (createApiKey e actorType roleName req actorTypeID options w)) = db w"
    if "get_d_0_id (canAccess e req actorType actorTypeID (''create-'' @ roleName)) \<noteq> Some actorTypeID"
  proof (cases "opt_tx options")
    case None
    with chk that show ?thesis
      by (simp add: createApiKey_own_tx opts_def w0_def a1 a2)
  next
    case (Some x)
    with chk that show ?thesis
      by (simp add: createApiKey_caller_tx opts_def w0_def a1 a2)
  qed
  from chk f l dbf w0
  show "(get_d_0_id (canAccess e req actorType actorTypeID (''create-'' @ roleName)) \<noteq> Some actorTypeID \<longrightarrow>
      fst (createApiKey e actorType roleName req actorTypeID options w) = Inl ForbiddenError \<and>
      db (snd (createApiKey e actorType roleName req actorTypeID options w)) = db w \<and>
      log (snd (createApiKey e actorType roleName req actorTypeID options w)) =
        log w @ [(Some t, GetActorable actorType actorTypeID),
                 (Some t, PostCanAccess actorType actorTypeID (''create-'' @ roleName))]) \<and>
   (get_d_0_id (canAccess e req actorType actorTypeID (''create-'' @ roleName)) = Some actorTypeID \<longrightarrow>
      fst (createApiKey e actorType roleName req actorTypeID options w) \<noteq> Inl ForbiddenError \<and>
      take 3 (drop (length (log w)) (log (snd (createApiKey e actorType roleName req actorTypeID options w)))) =
        [(Some t, GetActorable actorType actorTypeID),
         (Some t, PostCanAccess actorType actorTypeID (''create-'' @ roleName)),
         (Some t, PostApiKey actorID key (opt_name options) (opt_description options))])"
    by auto
qed

theorem createApiKey_forbidden_unless_same_id_witness:
  "fst (createApiKey (example_env\<lparr>canAccess := \<lambda>req actorType i action. Some [Some 43]\<rparr>)
          ''application'' ''observer'' example_request 42 example_options example_world) = Inl ForbiddenError \<and>
   db (snd (createApiKey (example_env\<lparr>canAccess := \<lambda>req actorType i action. Some [Some 43]\<rparr>)
          ''application'' ''observer'' example_request 42 example_options example_world)) = db example_world \<and>
   fst (createApiKey (example_env\<lparr>canAccess := \<lambda>req actorType i action. Some []\<rparr>)
          ''application'' ''observer'' example_request 42 example_options example_world) = Inl ForbiddenError \<and>
   fst (createApiKey example_env ''application'' ''observer'' example_request 42 example_options
          example_world) \<noteq> Inl ForbiddenError"
proof -
  let ?other = "example_env\<lparr>canAccess := \<lambda>req actorType i action. Some [Some 43]\<rparr>"
  let ?none = "example_env\<lparr>canAccess := \<lambda>req actorType i action. Some []\<rparr>"
  have t: "(0::nat) = (case opt_tx example_options of Some x \<Rightarrow> x | None \<Rightarrow> tx_count example_world)"
    by (simp add: example_options_def example_world_def)
  have k: "''generated-key'' = (case opt_apiKey example_options of None \<Rightarrow> randomstring_generate e | Some x \<Rightarrow> x)"
    if "randomstring_generate e = ''generated-key''" for e
    using that by (simp add: example_options_def)
  have g: "randomstring_generate example_env = ''generated-key''"
    "randomstring_generate ?other = ''generated-key''" "randomstring_generate ?none = ''generated-key''"
    by (simp_all add: example_env_def)
  have acc: "\<not> rejects example_env t op" "\<not> rejects ?other t op" "\<not> rejects ?none t op" for t op
    by (simp_all add: example_env_def)
  have actor: "map_of (actorables (db example_world)) (''application'', 42) = Some 7"
    by (simp add: example_defs)
  have differs: "get_d_0_id (canAccess ?other example_request ''application'' 42 (''create-'' @ ''observer'')) \<noteq> Some 42"
    by (simp add: get_d_0_id_def)
  have empty: "get_d_0_id (canAccess ?none example_request ''application'' 42 (''create-'' @ ''observer'')) \<noteq> Some 42"
    by (simp add: get_d_0_id_def)
  have same: "get_d_0_id (canAccess example_env example_request ''application'' 42 (''create-'' @ ''observer'')) = Some 42"
    by (simp add: get_d_0_id_def example_env_def)
  from createApiKey_forbidden_unless_same_id
    [where e = ?other and t = 0 and key = "''generated-key''" and options = example_options
       and w = example_world and actorType = "''application''" and actorTypeID = 42 and actorID = 7
       and roleName = "''observer''" and req = example_request]
    t k [OF g(2)] acc(2) actor differs
  have a: "fst (createApiKey ?other ''application'' ''observer'' example_request 42 example_options
                  example_world) = Inl ForbiddenError \<and>
     db (snd (createApiKey ?other ''application'' ''observer'' example_request 42 example_options
                  example_world)) = db example_world"
    by blast
  from createApiKey_forbidden_unless_same_id
    [where e = ?none and t = 0 and key = "''generated-key''" and options = example_options
       and w = example_world and actorType = "''application''" and actorTypeID = 42 and actorID = 7
       and roleName = "''observer''" and req = example_request]
    t k [OF g(3)] acc(3) actor empty
  have b: "fst (createApiKey ?none ''application'' ''observer'' example_request 42 example_options
                  example_world) = Inl ForbiddenError"
    by blast
  from createApiKey_forbidden_unless_same_id
    [where e = example_env and t = 0 and key = "''generated-key''" and options = example_options
       and w = example_world and actorType = "''application''" and actorTypeID = 42 and actorID = 7
       and roleName = "''observer''" and req = example_request]
    t k [OF g(1)] acc(1) actor same
  have c: "fst (createApiKey example_env ''application'' ''observer'' example_request 42 example_options
                  example_world) \<noteq> Inl ForbiddenError"
    by blast
  from a b c show ?thesis by blast
qed

section \<open>Updating a password\<close>

text \<open>
  C6. \<open>updatePasswordIfNeeded\<close> fails with \<open>NotFoundError\<close> when the lookup finds no user;
  returns false, having sent the lookup alone and left the tables alone, when the
  comparison of the new password with the stored one succeeds; returns true, with the
  password patched, when the patch is accepted; returns false, and no error, when the
  store rejects the patch. A rejected lookup is passed on, and in \<open>findUser\<close>,
  \<open>setPassword\<close>, \<open>checkUserPassword\<close>, \<open>registerUser\<close>, \<open>getUser\<close> and
  \<open>createApiKey\<close> every rejected request makes the call fail with the store's error.
\<close>

theorem updatePasswordIfNeeded_swallows_only_setPassword_failure:
  "(findUser e u t defaultFindUser_select w = (Inr None, w1) \<longrightarrow>
      updatePasswordIfNeeded e u p t w = (Inl (NotFoundError ''User not found.''), w1)) \<and>
   (findUser e u t defaultFindUser_select w = (Inr (Some user), w1) \<and>
    fst (comparePassword e p (db_password user) w1) \<longrightarrow>
      fst (updatePasswordIfNeeded e u p t w) = Inr False \<and>
      log (snd (updatePasswordIfNeeded e u p t w)) =
        log w @ [(t, GetUser (loginField_of u) u defaultFindUser_select)] \<and>
      db (snd (updatePasswordIfNeeded e u p t w)) = db w) \<and>
   (findUser e u t defaultFindUser_select w = (Inr (Some user), w1) \<and>
    \<not> fst (comparePassword e p (db_password user) w1) \<and> \<not> rejects e t (PatchUser (db_id user) p) \<longrightarrow>
      fst (updatePasswordIfNeeded e u p t w) = Inr True \<and>
      log (snd (updatePasswordIfNeeded e u p t w)) =
        log w @ [(t, GetUser (loginField_of u) u defaultFindUser_select), (t, PatchUser (db_id user) p)] \<and>
      db (snd (updatePasswordIfNeeded e u p t w)) = patch_password e (db_id user) p (db w)) \<and>
   (findUser e u t defaultFindUser_select w = (Inr (Some user), w1) \<and>
    \<not> fst (comparePassword e p (db_password user) w1) \<and> rejects e t (PatchUser (db_id user) p) \<longrightarrow>
      fst (updatePasswordIfNeeded e u p t w) = Inr False \<and>
      rejected_since e w (snd (updatePasswordIfNeeded e u p t w)) \<and>
      db (snd (updatePasswordIfNeeded e u p t w)) = db w) \<and>
   (findUser e u t defaultFindUser_select w = (Inl err, w1) \<longrightarrow>
      updatePasswordIfNeeded e u p t w = (Inl err, w1)) \<and>
   (rejected_since e w (snd (findUser e s t select w)) \<longrightarrow>
      fst (findUser e s t select w) = Inl StoreError) \<and>
   (rejected_since e w (snd (setPassword e user p t w)) \<longrightarrow>
      fst (setPassword e user p t w) = Inl StoreError) \<and>
   (rejected_since e w (snd (checkUserPassword e p userId w)) \<longrightarrow>
      fst (checkUserPassword e p userId w) = Inl StoreError) \<and>
   (rejected_since e w (snd (registerUser e d tr req w)) \<longrightarrow>
      fst (registerUser e d tr req w) = Inl StoreError) \<and>
   (rejected_since e w (snd (snd (getUser e rq required w))) \<longrightarrow>
      fst (getUser e rq required w) = Inl StoreError) \<and>
   (rejected_since e w (snd (createApiKey e actorType roleName rq actorTypeID options w)) \<longrightarrow>
      fst (createApiKey e actorType roleName rq actorTypeID options w) = Inl StoreError)"
proof -
  let ?upd = "updatePasswordIfNeeded e u p t w"
  let ?look = "(t, GetUser (loginField_of u) u defaultFindUser_select)"
  have found: "?upd =
     (let w2 = snd (comparePassword e p (db_password user) w1);
          op = PatchUser (db_id user) p
      in if fst (comparePassword e p (db_password user) w1) then (Inr False, w2)
         else if rejects e t op then (Inr False, w2\<lparr>log := log w2 @ [(t, op)]\<rparr>)
         else (Inr True, w2\<lparr>log := log w2 @ [(t, op)],
                            db := patch_password e (db_id user) p (db w2)\<rparr>))"
    and w1: "w1 = w\<lparr>log := log w @ [?look]\<rparr>"
    if "findUser e u t defaultFindUser_select w = (Inr (Some user), w1)"
    using that updatePasswordIfNeeded_found findUser_found by blast+
  have c2: "fst ?upd = Inr False \<and> log (snd ?upd) = log w @ [?look] \<and> db (snd ?upd) = db w"
    if "findUser e u t defaultFindUser_select w = (Inr (Some user), w1) \<and>
        fst (comparePassword e p (db_password user) w1)"
    using that found w1 by (simp add: Let_def comparePassword_snd)
  have c3: "fst ?upd = Inr True \<and>
      log (snd ?upd) = log w @ [?look, (t, PatchUser (db_id user) p)] \<and>
      db (snd ?upd) = patch_password e (db_id user) p (db w)"
    if "findUser e u t defaultFindUser_select w = (Inr (Some user), w1) \<and>
        \<not> fst (comparePassword e p (db_password user) w1) \<and> \<not> rejects e t (PatchUser (db_id user) p)"
    using that found w1 by (simp add: Let_def comparePassword_snd)
  have c4: "fst ?upd = Inr False \<and> rejected_since e w (snd ?upd) \<and> db (snd ?upd) = db w"
    if "findUser e u t defaultFindUser_select w = (Inr (Some user), w1) \<and>
        \<not> fst (comparePassword e p (db_password user) w1) \<and> rejects e t (PatchUser (db_id user) p)"
    using that found w1 by (simp add: Let_def comparePassword_snd rejected_since_def)
  from c2 c3 c4 updatePasswordIfNeeded_not_found [of e u t w w1 p]
    updatePasswordIfNeeded_lookup_fails [of e u t w err w1 p]
    findUser_propagates [of e w s t select] setPassword_propagates [of e w user p t]
    checkUserPassword_propagates [of e w p userId] registerUser_propagates [of e w d tr req]
    getUser_propagates [of e w rq required]
    createApiKey_propagates [of e w actorType roleName rq actorTypeID options]
  show ?thesis by blast
qed

theorem updatePasswordIfNeeded_swallows_only_setPassword_failure_witness:
  "updatePasswordIfNeeded example_env ''nobody'' ''new password'' None example_world =
     (Inl (NotFoundError ''User not found.''),
      example_world\<lparr>log := [(None, GetUser ''username'' ''nobody'' defaultFindUser_select)]\<rparr>) \<and>
   fst (updatePasswordIfNeeded example_env ''alice'' ''correct horse'' None example_world) = Inr False \<and>
   log (snd (updatePasswordIfNeeded example_env ''alice'' ''correct horse'' None example_world)) =
     [(None, GetUser ''username'' ''alice'' defaultFindUser_select)] \<and>
   fst (updatePasswordIfNeeded example_env ''alice'' ''new password'' None example_world) = Inr True \<and>
   fst (updatePasswordIfNeeded (example_env\<lparr>rejects := \<lambda>t op. op = PatchUser 1 ''new password''\<rparr>)
          ''alice'' ''new password'' None example_world) = Inr False \<and>
   rejected_since (example_env\<lparr>rejects := \<lambda>t op. op = PatchUser 1 ''new password''\<rparr>) example_world
     (snd (updatePasswordIfNeeded (example_env\<lparr>rejects := \<lambda>t op. op = PatchUser 1 ''new password''\<rparr>)
          ''alice'' ''new password'' None example_world))"
proof -
  let ?w1 = "example_world\<lparr>log := [(None, GetUser ''username'' ''alice'' defaultFindUser_select)]\<rparr>"
  let ?bad = "example_env\<lparr>rejects := \<lambda>t op. op = PatchUser 1 ''new password''\<rparr>"
  have f: "findUser example_env ''alice'' None defaultFindUser_select example_world = (Inr (Some example_alice), ?w1)"
    by (simp add: example_findUser_alice example_env_def)
  have fb: "findUser ?bad ''alice'' None defaultFindUser_select example_world = (Inr (Some example_alice), ?w1)"
    by (simp add: example_findUser_alice)
  have m: "fst (comparePassword example_env ''correct horse'' (db_password example_alice) ?w1)"
    by (simp add: comparePassword_def Hashed_compare_call_def example_defs)
  have n: "\<not> fst (comparePassword example_env ''new password'' (db_password example_alice) ?w1)"
    by (simp add: comparePassword_def Hashed_compare_call_def example_defs)
  have nb: "\<not> fst (comparePassword ?bad ''new password'' (db_password example_alice) ?w1)"
    by (simp add: comparePassword_def Hashed_compare_call_def example_defs)
  have acc: "\<not> rejects example_env None (PatchUser (db_id example_alice) ''new password'')"
    by (simp add: example_env_def)
  have rej: "rejects ?bad None (PatchUser (db_id example_alice) ''new password'')"
    by (simp add: example_alice_def)
  have lf: "loginField_of ''alice'' = ''username''" by (simp add: loginField_of_def)
  have l0: "log example_world = []" by (simp add: example_world_def)
  from updatePasswordIfNeeded_swallows_only_setPassword_failure
    [where e = example_env and u = "''nobody''" and p = "''new password''" and t = None
       and w = example_world
       and ?w1.0 = "example_world\<lparr>log := [(None, GetUser ''username'' ''nobody'' defaultFindUser_select)]\<rparr>"]
    example_findUser_nobody
  have a: "updatePasswordIfNeeded example_env ''nobody'' ''new password'' None example_world =
     (Inl (NotFoundError ''User not found.''),
      example_world\<lparr>log := [(None, GetUser ''username'' ''nobody'' defaultFindUser_select)]\<rparr>)"
    by blast
  from updatePasswordIfNeeded_swallows_only_setPassword_failure
    [where e = example_env and u = "''alice''" and p = "''correct horse''" and t = None
       and w = example_world and ?w1.0 = ?w1 and user = example_alice] f m lf l0
  have b: "fst (updatePasswordIfNeeded example_env ''alice'' ''correct horse'' None example_world) = Inr False \<and>
     log (snd (updatePasswordIfNeeded example_env ''alice'' ''correct horse'' None example_world)) =
       [(None, GetUser ''username'' ''alice'' defaultFindUser_select)]"
    by simp
  from updatePasswordIfNeeded_swallows_only_setPassword_failure
    [where e = example_env and u = "''alice''" and p = "''new password''" and t = None
       and w = example_world and ?w1.0 = ?w1 and user = example_alice] f n acc
  have c: "fst (updatePasswordIfNeeded example_env ''alice'' ''new password'' None example_world) = Inr True"
    by blast
  from updatePasswordIfNeeded_swallows_only_setPassword_failure
    [where e = ?bad and u = "''alice''" and p = "''new password''" and t = None
       and w = example_world and ?w1.0 = ?w1 and user = example_alice] fb nb rej
  have d: "fst (updatePasswordIfNeeded ?bad ''alice'' ''new password'' None example_world) = Inr False \<and>
     rejected_since ?bad example_world
       (snd (updatePasswordIfNeeded ?bad ''alice'' ''new password'' None example_world))"
    by blast
  from a b c d show ?thesis by blast
qed

end
